theory Spec2Isabelle
  imports Complex_Main
begin

section \<open>Strings and insertion-ordered sets\<close>

text \<open>
  A JavaScript string is modelled by \<^typ>\<open>string\<close>: the bytes of its generalised UTF-8
  form. Well-formed text is its UTF-8 encoding; a surrogate that is not half of a pair is
  the three bytes \<open>ED\<close>, \<open>A0..BF\<close>, \<open>80..BF\<close> of its code point; U+0000 is the byte 0.
  Two strings are strictly equal when the two lists are equal. The code joins strings
  through template literals and \<^verbatim>\<open>+\<close> only, always with literal ASCII text between two
  interpolated values, and there joining is \<open>@\<close> on the bytes.
\<close>

text \<open>
  \<^verbatim>\<open>[...new Set(queries)]\<close>: the constructor adds the elements from left to right; an
  element already present is not added again, a new one goes to the end of the
  insertion order; the spread reads the elements back in insertion order.
\<close>

definition Set_add :: "'a list \<Rightarrow> 'a \<Rightarrow> 'a list" where
  "Set_add s x = (if x \<in> set s then s else s @ [x])"

definition new_Set :: "'a list \<Rightarrow> 'a list" where
  "new_Set xs = foldl Set_add [] xs"

text \<open>\<^verbatim>\<open>arr.slice(0, n)\<close> for a natural \<open>n\<close>: the first \<open>n\<close> elements, or all of them.\<close>

definition slice0 :: "nat \<Rightarrow> 'a list \<Rightarrow> 'a list" where
  "slice0 n xs = take n xs"

text \<open>
  The specification's wording, "deduplicate by exact string equality preserving
  first-seen order": keep the head, drop its later copies, go on with the rest.
\<close>

function dedup_first_seen :: "'a list \<Rightarrow> 'a list" where
  "dedup_first_seen [] = []"
| "dedup_first_seen (x # xs) = x # dedup_first_seen (removeAll x xs)"
  by pat_completeness auto
termination
  by (relation "measure length") (auto simp: less_Suc_eq_le length_removeAll_less_eq)

section \<open>The plan\<close>

text \<open>
  \<^verbatim>\<open>DayPlan\<close> and \<^verbatim>\<open>LearningPlanStructure\<close> of \<^verbatim>\<open>shared/schema.ts\<close>, with the fields
  the pipeline reads. The code guards \<^verbatim>\<open>day.phase\<close>, \<^verbatim>\<open>day.microTopics\<close> and
  \<^verbatim>\<open>planStructure.days\<close> with \<^verbatim>\<open>||\<close>, so these three may be missing (\<open>None\<close>).
\<close>

record day_plan =
  day :: int
  title :: string
  phase :: "string option"
  microTopics :: "string list option"

record plan_structure =
  topic :: string
  days :: "day_plan list option"

section \<open>Query Synthesizer\<close>

text \<open>\<^verbatim>\<open>day.phase || 'beginner'\<close>: a missing phase and the empty string are both falsy.\<close>

definition phase_or_beginner :: "string option \<Rightarrow> string" where
  "phase_or_beginner p = (case p of None \<Rightarrow> ''beginner'' | Some s \<Rightarrow> if s = [] then ''beginner'' else s)"

definition primary_queries :: "string \<Rightarrow> string \<Rightarrow> string list" where
  "primary_queries baseTopic dayTitle =
     [baseTopic @ '' '' @ dayTitle,
      baseTopic @ '' '' @ dayTitle @ '' tutorial'',
      baseTopic @ '' '' @ dayTitle @ '' guide'']"

definition phase_queries :: "string \<Rightarrow> string \<Rightarrow> string \<Rightarrow> string list" where
  "phase_queries baseTopic dayTitle ph =
     (if ph = ''beginner'' then
        [baseTopic @ '' '' @ dayTitle @ '' fundamentals'',
         baseTopic @ '' '' @ dayTitle @ '' basics'',
         ''learn '' @ baseTopic @ '' '' @ dayTitle]
      else if ph = ''intermediate'' then
        [baseTopic @ '' '' @ dayTitle @ '' practical'',
         baseTopic @ '' '' @ dayTitle @ '' implementation'',
         baseTopic @ '' '' @ dayTitle @ '' examples'']
      else if ph = ''advanced'' then
        [baseTopic @ '' '' @ dayTitle @ '' advanced'',
         baseTopic @ '' '' @ dayTitle @ '' optimization'',
         baseTopic @ '' '' @ dayTitle @ '' best practices'']
      else [])"

definition micro_queries :: "string \<Rightarrow> string \<Rightarrow> string \<Rightarrow> string list" where
  "micro_queries baseTopic ph microTopic =
     [baseTopic @ '' '' @ microTopic,
      microTopic @ '' explained'',
      microTopic @ '' tutorial'',
      baseTopic @ '' '' @ microTopic @ '' '' @ ph]"

definition doc_queries :: "string \<Rightarrow> string list" where
  "doc_queries baseTopic =
     [baseTopic @ '' documentation'',
      baseTopic @ '' reference'',
      baseTopic @ '' technical guide'']"

text \<open>The array \<^verbatim>\<open>queries\<close> after the last \<^verbatim>\<open>push\<close>, before the \<^verbatim>\<open>Set\<close>.\<close>

definition emitted_queries :: "plan_structure \<Rightarrow> day_plan \<Rightarrow> string list" where
  "emitted_queries planStructure d =
     (let baseTopic = topic planStructure;
          dayTitle = title d;
          mts = (case microTopics d of None \<Rightarrow> [] | Some ms \<Rightarrow> ms);
          ph = phase_or_beginner (phase d)
      in primary_queries baseTopic dayTitle
         @ phase_queries baseTopic dayTitle ph
         @ concat (map (micro_queries baseTopic ph) mts)
         @ doc_queries baseTopic)"

definition generateComprehensiveSearchQueries :: "plan_structure \<Rightarrow> day_plan \<Rightarrow> string list" where
  "generateComprehensiveSearchQueries planStructure d =
     slice0 12 (new_Set (emitted_queries planStructure d))"

section \<open>Source Query Optimizer\<close>

text \<open>The four \<^verbatim>\<open>push\<close> calls of the \<^verbatim>\<open>switch\<close>; no \<^verbatim>\<open>case\<close> matches any other source.\<close>

definition source_additions :: "string \<Rightarrow> string \<Rightarrow> string list" where
  "source_additions source tp =
     (if source = ''youtube'' then
        [tp @ '' tutorial step by step'', ''how to learn '' @ tp, tp @ '' course'', tp @ '' explained'']
      else if source = ''medium'' then
        [tp @ '' deep dive'', tp @ '' comprehensive guide'', ''mastering '' @ tp, tp @ '' best practices'']
      else if source = ''reddit'' then
        [''learning '' @ tp, tp @ '' discussion'', tp @ '' help'', tp @ '' resources'']
      else if source = ''wikipedia'' then
        [tp @ '' overview'', tp @ '' introduction'', tp @ '' theory'', tp @ '' principles'']
      else [])"

definition optimizeQueriesForSource :: "string \<Rightarrow> string list \<Rightarrow> string \<Rightarrow> string list" where
  "optimizeQueriesForSource source baseQueries tp =
     slice0 8 (new_Set (baseQueries @ source_additions source tp))"

section \<open>JSON values\<close>

text \<open>
  What \<^verbatim>\<open>JSON.parse\<close> can return. A number is given by its value (both zeros are the
  rational 0; an infinity behaves here as any other non-zero number). An object is the
  list of its properties, read with \<^const>\<open>map_of\<close>. A property that is not there
  reads as \<^verbatim>\<open>undefined\<close>, modelled by \<open>None\<close>.
\<close>

datatype json =
  JNull
| JBool bool
| JNum rat
| JStr string
| JArr "json list"
| JObj "(string \<times> json) list"

datatype js_error = TypeError | SyntaxError | URIError | SystemError

fun truthy :: "json \<Rightarrow> bool" where
  "truthy JNull = False"
| "truthy (JBool b) = b"
| "truthy (JNum n) = (n \<noteq> 0)"
| "truthy (JStr s) = (s \<noteq> [])"
| "truthy (JArr xs) = True"
| "truthy (JObj kvs) = True"

definition truthy_val :: "json option \<Rightarrow> bool" where
  "truthy_val v = (case v of None \<Rightarrow> False | Some j \<Rightarrow> truthy j)"

text \<open>
  \<^verbatim>\<open>r.title\<close>, \<^verbatim>\<open>r.url\<close>, \<^verbatim>\<open>r.metadata\<close>, \<^verbatim>\<open>m.fallback\<close> on a value other than
  \<^verbatim>\<open>null\<close>: only an object can hold one of these names, no prototype of a string, number,
  boolean or array defines them. Reading a property of \<^verbatim>\<open>null\<close> raises a TypeError; each
  caller below tests for \<^const>\<open>JNull\<close> where the source can reach that read.
\<close>

fun get_prop :: "json \<Rightarrow> string \<Rightarrow> json option" where
  "get_prop (JObj kvs) k = map_of kvs k"
| "get_prop j k = None"

subsection \<open>Whitespace, as \<^verbatim>\<open>String.prototype.trim\<close> sees it\<close>

text \<open>
  Length in bytes of the white-space or line-terminator code point at the head of a
  UTF-8 string, 0 when the string does not start with one: U+0009..U+000D, U+0020,
  U+00A0, U+1680, U+2000..U+200A, U+2028, U+2029, U+202F, U+205F, U+3000, U+FEFF.
\<close>

definition ws_len :: "string \<Rightarrow> nat" where
  "ws_len s =
     (case map (of_char :: char \<Rightarrow> nat) s of
        [] \<Rightarrow> 0
      | a # r1 \<Rightarrow>
          if a = 9 \<or> a = 10 \<or> a = 11 \<or> a = 12 \<or> a = 13 \<or> a = 32 then 1
          else (case r1 of
                  [] \<Rightarrow> 0
                | b # r2 \<Rightarrow>
                    if a = 194 \<and> b = 160 then 2
                    else (case r2 of
                            [] \<Rightarrow> 0
                          | c # r3 \<Rightarrow>
                              if (a = 225 \<and> b = 154 \<and> c = 128)
                               \<or> (a = 226 \<and> b = 128 \<and> (128 \<le> c \<and> c \<le> 138 \<or> c = 168 \<or> c = 169 \<or> c = 175))
                               \<or> (a = 226 \<and> b = 129 \<and> c = 159)
                               \<or> (a = 227 \<and> b = 128 \<and> c = 128)
                               \<or> (a = 239 \<and> b = 187 \<and> c = 191)
                              then 3 else 0)))"

text \<open>\<^verbatim>\<open>s.trim() === ''\<close>: the string is made of white space only.\<close>

function ws_only :: "string \<Rightarrow> bool" where
  "ws_only s = (if s = [] then True
                else if ws_len s = 0 then False
                else ws_only (drop (ws_len s) s))"
  by pat_completeness auto
termination
  by (relation "measure length") auto

declare ws_only.simps [simp del]

subsection \<open>\<^verbatim>\<open>encodeURIComponent\<close> and decimal numbers\<close>

definition uri_unreserved :: "char \<Rightarrow> bool" where
  "uri_unreserved c =
     (c \<in> set ''ABCDEFGHIJKLMNOPQRSTUVWXYZabcdefghijklmnopqrstuvwxyz0123456789-_.!~*()''
      \<or> c = CHR 0x27)"

definition hex_digit :: "nat \<Rightarrow> char" where
  "hex_digit n = ''0123456789ABCDEF'' ! (n mod 16)"

text \<open>Every byte of the UTF-8 form that is not an unreserved character becomes \<^verbatim>\<open>%XX\<close>.\<close>

definition percent_encode :: "string \<Rightarrow> string" where
  "percent_encode s =
     concat (map (\<lambda>c. if uri_unreserved c then [c]
                       else [CHR ''%'', hex_digit (of_char c div 16), hex_digit (of_char c mod 16)]) s)"

text \<open>
  The string holds a surrogate that is not half of a pair: the byte \<open>ED\<close> (237) followed
  by a byte in \<open>A0..BF\<close> (160 to 191). In well-formed text \<open>ED\<close> is followed by \<open>80..9F\<close>.
\<close>

fun has_lone_surrogate :: "string \<Rightarrow> bool" where
  "has_lone_surrogate (a # b # rest) =
     (((of_char a :: nat) = 237 \<and> 160 \<le> (of_char b :: nat) \<and> (of_char b :: nat) \<le> 191)
      \<or> has_lone_surrogate (b # rest))"
| "has_lone_surrogate [a] = False"
| "has_lone_surrogate [] = False"

text \<open>\<^verbatim>\<open>encodeURIComponent\<close> raises a URIError on a string with a lone surrogate.\<close>

definition encodeURIComponent :: "string \<Rightarrow> js_error + string" where
  "encodeURIComponent s = (if has_lone_surrogate s then Inl URIError else Inr (percent_encode s))"

function string_of_nat :: "nat \<Rightarrow> string" where
  "string_of_nat n =
     (if n < 10 then [''0123456789'' ! n]
      else string_of_nat (n div 10) @ [''0123456789'' ! (n mod 10)])"
  by pat_completeness auto
termination
  by (relation "measure id") auto

declare string_of_nat.simps [simp del]

definition string_of_int :: "int \<Rightarrow> string" where
  "string_of_int i = (if i < 0 then ''-'' @ string_of_nat (nat (- i)) else string_of_nat (nat i))"

section \<open>Fallback Synthesizer\<close>

definition fallback_metadata :: "string \<Rightarrow> json" where
  "fallback_metadata source =
     JObj [(''source'', JStr source),
           (''type'', JStr ''fallback_search''),
           (''note'', JStr ''Direct search link - click to find relevant content'')]"

definition fallback_item :: "string \<Rightarrow> string \<Rightarrow> string \<Rightarrow> string \<Rightarrow> json" where
  "fallback_item source ttl url snippet =
     JObj [(''title'', JStr ttl),
           (''url'', JStr url),
           (''snippet'', JStr snippet),
           (''source'', JStr source),
           (''metadata'', fallback_metadata source)]"

text \<open>
  The names every object literal inherits from \<^verbatim>\<open>Object.prototype\<close>. For such a source
  \<^verbatim>\<open>fallbackContent[source]\<close> is the inherited function or object, whose \<^verbatim>\<open>title\<close>,
  \<^verbatim>\<open>url\<close> and \<^verbatim>\<open>snippet\<close> are \<^verbatim>\<open>undefined\<close>: the item has these three properties with
  the value \<^verbatim>\<open>undefined\<close>, which reads like a property that is not there.
\<close>

definition inherited_names :: "string list" where
  "inherited_names =
     [''constructor'', ''__defineGetter__'', ''__defineSetter__'', ''hasOwnProperty'',
      ''__lookupGetter__'', ''__lookupSetter__'', ''isPrototypeOf'', ''propertyIsEnumerable'',
      ''toString'', ''valueOf'', ''__proto__'', ''toLocaleString'']"

definition inherited_item :: "string \<Rightarrow> json" where
  "inherited_item source =
     JObj [(''source'', JStr source), (''metadata'', fallback_metadata source)]"

text \<open>
  The object literal \<^verbatim>\<open>fallbackContent\<close> is built first, all four entries of it: the url
  of wikipedia, reddit and medium encodes the query, the url of youtube encodes the query
  followed by " tutorial"; a URIError of either leaves the function before the source is
  looked at. \<^verbatim>\<open>fallbackContent[source]\<close> is \<^verbatim>\<open>undefined\<close> for a source that is neither
  one of the four keys nor an inherited name, and \<^verbatim>\<open>content.title\<close> then raises a
  TypeError.
\<close>

definition generateFallbackResults :: "string \<Rightarrow> string \<Rightarrow> js_error + json list" where
  "generateFallbackResults source query =
     (case encodeURIComponent query of
        Inl err \<Rightarrow> Inl err
      | Inr encoded \<Rightarrow>
     (case encodeURIComponent (query @ '' tutorial'') of
        Inl err \<Rightarrow> Inl err
      | Inr encoded_tutorial \<Rightarrow>
          if source = ''wikipedia'' then
            Inr [fallback_item source
                   (query @ '' - Wikipedia Overview'')
                   (''https://en.wikipedia.org/wiki/Special:Search/'' @ encoded)
                   (''Search Wikipedia for comprehensive information about '' @ query
                      @ ''. Click to explore detailed articles and references.'')]
          else if source = ''youtube'' then
            Inr [fallback_item source
                   (query @ '' - Educational Videos'')
                   (''https://www.youtube.com/results?search_query='' @ encoded_tutorial)
                   (''Find video tutorials and educational content about '' @ query
                      @ ''. Learn through visual explanations and practical demonstrations.'')]
          else if source = ''reddit'' then
            Inr [fallback_item source
                   (query @ '' - Community Discussions'')
                   (''https://www.reddit.com/search/?q='' @ encoded)
                   (''Join community discussions about '' @ query
                      @ ''. Get insights, ask questions, and learn from experienced practitioners.'')]
          else if source = ''medium'' then
            Inr [fallback_item source
                   (query @ '' - Technical Articles'')
                   (''https://medium.com/search?q='' @ encoded)
                   (''Read in-depth technical articles about '' @ query
                      @ ''. Explore expert insights and practical implementation guides.'')]
          else if source \<in> set inherited_names then Inr [inherited_item source]
          else Inl TypeError))"

section \<open>Source Fetcher\<close>

text \<open>
  Once the process is started, the promise is settled by the first of the three handlers
  to run: \<^verbatim>\<open>close\<close> (with the exit code, \<^verbatim>\<open>null\<close> after a signal, and the collected
  standard output), \<^verbatim>\<open>error\<close> (the process could not be spawned) or the timer of 15
  seconds.
\<close>

datatype lookup_outcome =
  Closed "int option" string
| SpawnError
| TimedOut

text \<open>
  What the call of \<^verbatim>\<open>spawn\<close> in the executor of the promise does: it raises at once (an
  error of the system that \<^verbatim>\<open>spawn\<close> does not turn into an \<^verbatim>\<open>error\<close> event, or no
  streams to attach the listeners to), or the executor runs to its end and one of the
  handlers runs later.
\<close>

datatype spawn_result =
  SpawnRaised
| Spawned lookup_outcome

text \<open>
  The world outside: what \<^verbatim>\<open>JSON.parse\<close> returns on a text (\<open>None\<close> for a SyntaxError),
  and what happens to the \<open>n\<close>-th call of the fetcher.
\<close>

record env =
  JSON_parse :: "string \<Rightarrow> json option"
  outcome_of_call :: "nat \<Rightarrow> spawn_result"

text \<open>
  \<^verbatim>\<open>r && r.title && r.title !== 'Module Import Error' && r.title !== 'Sorry peeps nothing to see here'\<close>
\<close>

definition valid_result :: "json \<Rightarrow> bool" where
  "valid_result r =
     (truthy r \<and> truthy_val (get_prop r ''title'')
      \<and> get_prop r ''title'' \<noteq> Some (JStr ''Module Import Error'')
      \<and> get_prop r ''title'' \<noteq> Some (JStr ''Sorry peeps nothing to see here''))"

text \<open>
  The three handlers (the \<^verbatim>\<open>close\<close> handler is lines 347 to 367): the list the first
  handler to run resolves the promise with, \<open>Inr\<close>; or \<open>Inl\<close>: the handler raised.
  A parsed value that is not an array has no \<^verbatim>\<open>filter\<close> to call: the TypeError is caught
  by the \<^verbatim>\<open>catch\<close> of the parse.
\<close>

definition fetch_handlers ::
  "env \<Rightarrow> string \<Rightarrow> string \<Rightarrow> lookup_outcome \<Rightarrow> js_error + json list" where
  "fetch_handlers e source query oc =
     (case oc of
        Closed code output \<Rightarrow>
          if code = Some 0 \<and> \<not> ws_only output then
            (case JSON_parse e output of
               None \<Rightarrow> generateFallbackResults source query
             | Some (JArr result) \<Rightarrow>
                 (let validResults = filter valid_result result
                  in if validResults \<noteq> [] then Inr validResults
                     else generateFallbackResults source query)
             | Some other \<Rightarrow> generateFallbackResults source query)
          else generateFallbackResults source query
      | SpawnError \<Rightarrow> generateFallbackResults source query
      | TimedOut \<Rightarrow> generateFallbackResults source query)"

text \<open>
  A promise in the end: resolved with a value, rejected with an error, or never settled
  because the handler that should have settled it raised (nothing catches that error).
\<close>

datatype 'a promise =
  Resolved 'a
| Rejected js_error
| Unsettled js_error

text \<open>
  The executor calls \<^verbatim>\<open>spawn('python3', [scriptPath, query], ...)\<close> outside any
  \<^verbatim>\<open>try\<close>, where \<^verbatim>\<open>scriptPath\<close> holds the source. \<^verbatim>\<open>spawn\<close> raises a TypeError for
  an argument that holds U+0000; whatever is raised in the executor rejects the promise.
\<close>

definition fetchResourcesFromSource ::
  "env \<Rightarrow> string \<Rightarrow> string \<Rightarrow> spawn_result \<Rightarrow> json list promise" where
  "fetchResourcesFromSource e source query sr =
     (if CHR 0x00 \<in> set source \<or> CHR 0x00 \<in> set query then Rejected TypeError
      else case sr of
             SpawnRaised \<Rightarrow> Rejected SystemError
           | Spawned oc \<Rightarrow>
               (case fetch_handlers e source query oc of
                  Inl err \<Rightarrow> Unsettled err
                | Inr items \<Rightarrow> Resolved items))"

section \<open>Day Aggregator and Plan Resource Orchestrator\<close>

record resource =
  res_planId :: string
  res_day :: int
  res_source :: string
  res_data :: "json list"

text \<open>The calls of the fetcher so far, in order, and the records of \<^verbatim>\<open>storage\<close>.\<close>

record world =
  calls :: "(string \<times> string) list"
  store :: "resource list"

text \<open>
  A call of the fetcher: what becomes of its promise, and the world with the call
  written down.
\<close>

definition await_fetch :: "env \<Rightarrow> string \<Rightarrow> string \<Rightarrow> world \<Rightarrow> json list promise \<times> world" where
  "await_fetch e source query w =
     (fetchResourcesFromSource e source query (outcome_of_call e (length (calls w))),
      w\<lparr>calls := calls w @ [(source, query)]\<rparr>)"

text \<open>\<^verbatim>\<open>r.metadata?.fallback\<close> on an \<open>r\<close> that is not \<^verbatim>\<open>null\<close>.\<close>

definition fallback_flag :: "json \<Rightarrow> json option" where
  "fallback_flag r =
     (case get_prop r ''metadata'' of
        None \<Rightarrow> None
      | Some JNull \<Rightarrow> None
      | Some m \<Rightarrow> get_prop m ''fallback'')"

text \<open>
  \<^verbatim>\<open>!r.metadata?.fallback && r.title !== 'Sorry peeps nothing to see here' && r.url && r.url.trim() !== ''\<close>,
  left to right. A truthy \<^verbatim>\<open>url\<close> that is not a string has no \<^verbatim>\<open>trim\<close>: TypeError.
\<close>

definition keep_resource :: "json \<Rightarrow> js_error + bool" where
  "keep_resource r =
     (if r = JNull then Inl TypeError
      else if truthy_val (fallback_flag r) then Inr False
      else if get_prop r ''title'' = Some (JStr ''Sorry peeps nothing to see here'') then Inr False
      else if \<not> truthy_val (get_prop r ''url'') then Inr False
      else (case get_prop r ''url'' of
              Some (JStr u) \<Rightarrow> Inr (\<not> ws_only u)
            | _ \<Rightarrow> Inl TypeError))"

text \<open>\<^verbatim>\<open>Array.prototype.filter\<close> with a callback that may raise.\<close>

fun filter_raising :: "('a \<Rightarrow> js_error + bool) \<Rightarrow> 'a list \<Rightarrow> js_error + 'a list" where
  "filter_raising p [] = Inr []"
| "filter_raising p (x # xs) =
     (case p x of
        Inl err \<Rightarrow> Inl err
      | Inr b \<Rightarrow>
          (case filter_raising p xs of
             Inl err \<Rightarrow> Inl err
           | Inr ys \<Rightarrow> Inr (if b then x # ys else ys)))"

text \<open>
  The loop over \<^verbatim>\<open>sourceQueries\<close>. A rejected fetch and a raise of the filter are caught
  by the \<^verbatim>\<open>catch\<close> inside the loop, which goes on with the next query; after a promise
  that is never settled the loop never goes on, \<open>None\<close>.
\<close>

fun fetch_queries :: "env \<Rightarrow> string \<Rightarrow> string list \<Rightarrow> world \<Rightarrow> json list \<Rightarrow> (world \<times> json list) option" where
  "fetch_queries e source [] w allResources = Some (w, allResources)"
| "fetch_queries e source (query # rest) w allResources =
     (let (p, w') = await_fetch e source query w
      in case p of
           Unsettled err \<Rightarrow> None
         | Rejected err \<Rightarrow> fetch_queries e source rest w' allResources
         | Resolved resources \<Rightarrow>
             if resources \<noteq> [] then
               (case filter_raising keep_resource resources of
                  Inl err \<Rightarrow> fetch_queries e source rest w' allResources
                | Inr validResources \<Rightarrow> fetch_queries e source rest w' (allResources @ validResources))
             else fetch_queries e source rest w' allResources)"

text \<open>\<^verbatim>\<open>Array.prototype.findIndex\<close>: the first index that satisfies, or -1.\<close>

fun findIndex :: "('a \<Rightarrow> bool) \<Rightarrow> 'a list \<Rightarrow> int" where
  "findIndex P [] = - 1"
| "findIndex P (x # xs) =
     (if P x then 0 else (let i = findIndex P xs in if i < 0 then - 1 else i + 1))"

text \<open>
  \<^verbatim>\<open>allResources.filter((resource, index, self) => index === self.findIndex((r) => r.url === resource.url))\<close>.
  Reading \<^verbatim>\<open>.url\<close> of a \<^verbatim>\<open>null\<close> element raises, at the latest when the filter reaches
  that element. \<^verbatim>\<open>===\<close> on two urls is equality of the values; this is what JavaScript
  does on strings, numbers, booleans, \<^verbatim>\<open>null\<close> and \<^verbatim>\<open>undefined\<close> (arrays and objects are
  compared by reference there, and no url that reaches this point is one).
\<close>

definition uniqueResources :: "json list \<Rightarrow> js_error + json list" where
  "uniqueResources allResources =
     (if JNull \<in> set allResources then Inl TypeError
      else Inr (map fst
             (filter (\<lambda>(resource, index).
                        int index = findIndex (\<lambda>r. get_prop r ''url'' = get_prop resource ''url'') allResources)
                     (zip allResources [0 ..< length allResources]))))"

text \<open>The body of the loop over \<^verbatim>\<open>sources\<close>, with its \<^verbatim>\<open>try\<close>/\<^verbatim>\<open>catch\<close>.\<close>

definition aggregate_source ::
  "env \<Rightarrow> string \<Rightarrow> int \<Rightarrow> string list \<Rightarrow> string \<Rightarrow> string \<Rightarrow> world \<Rightarrow> world option" where
  "aggregate_source e planId dayNumber searchQueries tp source w =
     (let sourceQueries = optimizeQueriesForSource source searchQueries tp
      in case fetch_queries e source sourceQueries w [] of
           None \<Rightarrow> None
         | Some (w', allResources) \<Rightarrow>
             (case uniqueResources allResources of
                Inl err \<Rightarrow> Some w'
              | Inr u \<Rightarrow>
                  (let unique = slice0 5 u
                   in if unique \<noteq> [] then
                        Some (w'\<lparr>store := store w' @
                                [\<lparr>res_planId = planId, res_day = dayNumber,
                                  res_source = source, res_data = unique\<rparr>]\<rparr>)
                      else Some w')))"

fun for_sources ::
  "env \<Rightarrow> string \<Rightarrow> int \<Rightarrow> string list \<Rightarrow> string \<Rightarrow> string list \<Rightarrow> world \<Rightarrow> world option" where
  "for_sources e planId dayNumber searchQueries tp [] w = Some w"
| "for_sources e planId dayNumber searchQueries tp (source # rest) w =
     (case aggregate_source e planId dayNumber searchQueries tp source w of
        None \<Rightarrow> None
      | Some w' \<Rightarrow> for_sources e planId dayNumber searchQueries tp rest w')"

definition sources :: "string list" where
  "sources = [''wikipedia'', ''youtube'', ''reddit'', ''medium'']"

fun for_days :: "env \<Rightarrow> string \<Rightarrow> plan_structure \<Rightarrow> day_plan list \<Rightarrow> world \<Rightarrow> world option" where
  "for_days e planId planStructure [] w = Some w"
| "for_days e planId planStructure (d # rest) w =
     (let searchQueries = generateComprehensiveSearchQueries planStructure d
      in case for_sources e planId (day d) searchQueries (topic planStructure) sources w of
           None \<Rightarrow> None
         | Some w' \<Rightarrow> for_days e planId planStructure rest w')"

definition fetchResourcesForPlan :: "env \<Rightarrow> string \<Rightarrow> plan_structure \<Rightarrow> world \<Rightarrow> world option" where
  "fetchResourcesForPlan e planId planStructure w =
     for_days e planId planStructure (case days planStructure of None \<Rightarrow> [] | Some ds \<Rightarrow> ds) w"

section \<open>Immediate-Resources fast path\<close>

text \<open>
  \<^verbatim>\<open>await fetchResourcesFromSource(source, searchQuery)\<close> with nothing to catch a
  rejection: the function goes on with the list, or ends as the promise did.
\<close>

definition then_fetch ::
  "env \<Rightarrow> string \<Rightarrow> string \<Rightarrow> world \<Rightarrow> (json list \<Rightarrow> world \<Rightarrow> 'a promise) \<Rightarrow> 'a promise" where
  "then_fetch e source query w k =
     (let (p, w') = await_fetch e source query w
      in case p of
           Resolved items \<Rightarrow> k items w'
         | Rejected err \<Rightarrow> Rejected err
         | Unsettled err \<Rightarrow> Unsettled err)"

text \<open>
  One pass of the loop body: the four awaited fetches, in the order of the object
  literal.
\<close>

definition immediate_day ::
  "env \<Rightarrow> string \<Rightarrow> world \<Rightarrow> ((string \<times> json list) list \<times> world) promise" where
  "immediate_day e searchQuery w =
     then_fetch e ''wikipedia'' searchQuery w (\<lambda>wikipedia w1.
     then_fetch e ''youtube'' searchQuery w1 (\<lambda>youtube w2.
     then_fetch e ''reddit'' searchQuery w2 (\<lambda>reddit w3.
     then_fetch e ''medium'' searchQuery w3 (\<lambda>medium w4.
       Resolved ([(''wikipedia'', wikipedia), (''youtube'', youtube),
                  (''reddit'', reddit), (''medium'', medium)], w4)))))"

text \<open>
  \<^verbatim>\<open>for (let day = 1; day <= Math.min(duration, 5); day++)\<close>. The duration is a number,
  not always a whole one: the route takes any number from 1 to 365.
\<close>

function immediate_loop ::
  "env \<Rightarrow> string \<Rightarrow> rat \<Rightarrow> int \<Rightarrow> (int \<times> (string \<times> json list) list) list \<Rightarrow> world
     \<Rightarrow> ((int \<times> (string \<times> json list) list) list \<times> world) promise" where
  "immediate_loop e tp duration dy groupedResources w =
     (if of_int dy \<le> min duration 5 then
        (let searchQuery = tp @ '' day '' @ string_of_int dy @ '' fundamentals''
         in case immediate_day e searchQuery w of
              Resolved (entry, w') \<Rightarrow>
                immediate_loop e tp duration (dy + 1) (groupedResources @ [(dy, entry)]) w'
            | Rejected err \<Rightarrow> Rejected err
            | Unsettled err \<Rightarrow> Unsettled err)
      else Resolved (groupedResources, w))"
  by pat_completeness auto
termination
  by (relation "measure (\<lambda>(e, tp, duration, dy, g, w). nat (6 - dy))") auto

declare immediate_loop.simps [simp del]

definition generateImmediateResources ::
  "env \<Rightarrow> string \<Rightarrow> rat \<Rightarrow> world
     \<Rightarrow> ((int \<times> (string \<times> json list) list) list \<times> world) promise" where
  "generateImmediateResources e tp duration w = immediate_loop e tp duration 1 [] w"

section \<open>What the fast path is expected to issue and return\<close>

text \<open>The list a promise was resolved with.\<close>

definition resolved_items :: "json list promise \<Rightarrow> json list" where
  "resolved_items p = (case p of Resolved items \<Rightarrow> items | Rejected err \<Rightarrow> [] | Unsettled err \<Rightarrow> [])"

text \<open>The query of day \<open>n\<close>, the four lookups of that day, in order, and its entry of the
  result when the first lookup of the day is the \<open>i\<close>-th call of the fetcher: the four
  lists the fetcher resolved with, as they are.\<close>

definition day_query :: "string \<Rightarrow> int \<Rightarrow> string" where
  "day_query tp n = tp @ '' day '' @ string_of_int n @ '' fundamentals''"

definition day_calls :: "string \<Rightarrow> int \<Rightarrow> (string \<times> string) list" where
  "day_calls tp n = [(''wikipedia'', day_query tp n), (''youtube'', day_query tp n),
                     (''reddit'', day_query tp n), (''medium'', day_query tp n)]"

definition day_entry :: "env \<Rightarrow> string \<Rightarrow> nat \<Rightarrow> int \<Rightarrow> int \<times> (string \<times> json list) list" where
  "day_entry e tp i n =
     (n, [(''wikipedia'', resolved_items (fetchResourcesFromSource e ''wikipedia'' (day_query tp n) (outcome_of_call e i))),
          (''youtube'', resolved_items (fetchResourcesFromSource e ''youtube'' (day_query tp n) (outcome_of_call e (i + 1)))),
          (''reddit'', resolved_items (fetchResourcesFromSource e ''reddit'' (day_query tp n) (outcome_of_call e (i + 2)))),
          (''medium'', resolved_items (fetchResourcesFromSource e ''medium'' (day_query tp n) (outcome_of_call e (i + 3))))])"

section \<open>The shape of a persisted record\<close>

text \<open>
  An item that the aggregator's filter lets through: its \<^verbatim>\<open>metadata.fallback\<close> is not
  truthy and its url is a string that is not blank. A record as the aggregator writes it:
  one to five such items, no two with the same url.
\<close>

definition url_ok :: "json \<Rightarrow> bool" where
  "url_ok r =
     (r \<noteq> JNull \<and> \<not> truthy_val (fallback_flag r)
      \<and> (\<exists>u. get_prop r ''url'' = Some (JStr u) \<and> \<not> ws_only u))"

definition good_record :: "resource \<Rightarrow> bool" where
  "good_record r =
     (res_data r \<noteq> [] \<and> length (res_data r) \<le> 5
      \<and> distinct (map (\<lambda>i. get_prop i ''url'') (res_data r))
      \<and> (\<forall>i \<in> set (res_data r). url_ok i))"

section \<open>Concrete inputs\<close>

text \<open>The plan and the first day of the specification's end-to-end example.\<close>

definition rust_day1 :: day_plan where
  "rust_day1 = \<lparr>day = 1, title = ''Intro to ownership'', phase = Some ''beginner'',
                 microTopics = Some [''move semantics'', ''borrowing'']\<rparr>"

definition rust_plan :: plan_structure where
  "rust_plan = \<lparr>topic = ''rust ownership'', days = Some [rust_day1]\<rparr>"

text \<open>A day whose title and only micro-topic are the empty string.\<close>

definition blank_day :: day_plan where
  "blank_day = \<lparr>day = 1, title = '''', phase = Some ''beginner'', microTopics = Some ['''']\<rparr>"

definition go_plan :: plan_structure where
  "go_plan = \<lparr>topic = ''go'', days = Some [blank_day]\<rparr>"

text \<open>Every lookup runs into the timer; nothing is ever parsed.\<close>

definition env_down :: env where
  "env_down = \<lparr>JSON_parse = (\<lambda>s. None), outcome_of_call = (\<lambda>n. Spawned TimedOut)\<rparr>"


text \<open>\<^verbatim>\<open>r.metadata.type\<close>, the field in which the Fallback Synthesizer marks its items.\<close>

definition metadata_type :: "json \<Rightarrow> json option" where
  "metadata_type r = (case get_prop r ''metadata'' of None \<Rightarrow> None | Some m \<Rightarrow> get_prop m ''type'')"

text \<open>The first lookup returns one real result; every later lookup runs into the timer.\<close>

definition env_one_real :: env where
  "env_one_real =
     \<lparr>JSON_parse = (\<lambda>s. Some (JArr [JObj [(''title'', JStr ''Go''),
                                             (''url'', JStr ''https://go.dev/'')]])),
      outcome_of_call = (\<lambda>n. if n = 0 then Spawned (Closed (Some 0) ''[x]'') else Spawned TimedOut)\<rparr>"

definition world0 :: world where
  "world0 = \<lparr>calls = [], store = []\<rparr>"

definition io_plan :: plan_structure where
  "io_plan = \<lparr>topic = ''go'',
               days = Some [\<lparr>day = 1, title = ''io'', phase = Some ''beginner'', microTopics = Some []\<rparr>]\<rparr>"

text \<open>
  The topic "go" followed by U+0000, as the JSON body \<^verbatim>\<open>{"topic": "go\u0000", ...}\<close> gives
  it, and the topic "go" followed by the lone surrogate U+D800 (\<^verbatim>\<open>"go\ud800"\<close>).
\<close>

definition nul_topic :: string where
  "nul_topic = ''go'' @ [CHR 0x00]"

definition surrogate_topic :: string where
  "surrogate_topic = ''go'' @ [CHR 0xED, CHR 0xA0, CHR 0x80]"

section \<open>Facts about insertion-ordered sets\<close>

lemma distinct_Set_add: "distinct s \<Longrightarrow> distinct (Set_add s x)"
  by (simp add: Set_add_def)

lemma set_Set_add: "set (Set_add s x) = insert x (set s)"
  by (auto simp: Set_add_def)

lemma foldl_Set_add_distinct:
  "distinct acc \<Longrightarrow> distinct (foldl Set_add acc xs)"
  by (induction xs arbitrary: acc) (simp_all add: distinct_Set_add)

lemma foldl_Set_add_set:
  "set (foldl Set_add acc xs) = set acc \<union> set xs"
  by (induction xs arbitrary: acc) (simp_all add: set_Set_add)

lemma distinct_new_Set: "distinct (new_Set xs)"
  by (simp add: new_Set_def foldl_Set_add_distinct)

lemma set_new_Set: "set (new_Set xs) = set xs"
  by (simp add: new_Set_def foldl_Set_add_set)

lemma foldl_Set_add_dedup:
  "foldl Set_add acc xs = acc @ dedup_first_seen (filter (\<lambda>x. x \<notin> set acc) xs)"
proof (induction xs arbitrary: acc)
  case Nil
  show ?case by simp
next
  case (Cons y ys)
  show ?case
  proof (cases "y \<in> set acc")
    case True
    then have "Set_add acc y = acc" by (simp add: Set_add_def)
    with True show ?thesis by (simp add: Cons.IH)
  next
    case False
    then have step: "Set_add acc y = acc @ [y]" by (simp add: Set_add_def)
    have "removeAll y (filter (\<lambda>x. x \<notin> set acc) ys) = filter (\<lambda>x. x \<notin> set (acc @ [y])) ys"
      by (induction ys) auto
    with False step show ?thesis by (simp add: Cons.IH)
  qed
qed

lemma new_Set_dedup: "new_Set xs = dedup_first_seen xs"
  by (simp add: new_Set_def foldl_Set_add_dedup)

lemma slice0_new_Set_prefix:
  "length xs \<le> n \<Longrightarrow> set xs \<subseteq> set (slice0 n (new_Set (xs @ ys)))"
proof -
  assume len: "length xs \<le> n"
  have "new_Set (xs @ ys) = new_Set xs @ dedup_first_seen (filter (\<lambda>x. x \<notin> set (new_Set xs)) ys)"
    by (simp add: new_Set_def foldl_Set_add_dedup)
  moreover have "length (new_Set xs) \<le> length xs"
    using distinct_new_Set [of xs] set_new_Set [of xs]
    by (metis card_length distinct_card)
  ultimately have "set (new_Set xs) \<subseteq> set (slice0 n (new_Set (xs @ ys)))"
    using len by (simp add: slice0_def)
  then show ?thesis by (simp add: set_new_Set)
qed

section \<open>Query Synthesizer: bound, uniqueness, order\<close>

text \<open>
  Claim C6. For every topic and day the synthesizer returns at most 12 queries, no
  query twice, and the list is the emitted sequence deduplicated by string equality in
  first-seen order, cut to its first 12.
\<close>

theorem synthesizer_bounded_dedup:
  "length (generateComprehensiveSearchQueries p d) \<le> 12
   \<and> distinct (generateComprehensiveSearchQueries p d)
   \<and> generateComprehensiveSearchQueries p d = take 12 (dedup_first_seen (emitted_queries p d))"
  by (simp add: generateComprehensiveSearchQueries_def slice0_def new_Set_dedup [symmetric]
        distinct_new_Set)

section \<open>Source Query Optimizer\<close>

text \<open>
  Claim C8. The optimizer returns the base list followed by the four fixed queries of
  the source, deduplicated in first-seen order and cut to 8; for a source that is none
  of the four it returns the base list alone, deduplicated and cut to 8.
\<close>

theorem optimizer_appends_dedups_caps:
  "(source = ''youtube'' \<longrightarrow>
      optimizeQueriesForSource source base tp =
        take 8 (dedup_first_seen (base @ [tp @ '' tutorial step by step'', ''how to learn '' @ tp,
                                          tp @ '' course'', tp @ '' explained''])))
   \<and> (source = ''medium'' \<longrightarrow>
      optimizeQueriesForSource source base tp =
        take 8 (dedup_first_seen (base @ [tp @ '' deep dive'', tp @ '' comprehensive guide'',
                                          ''mastering '' @ tp, tp @ '' best practices''])))
   \<and> (source = ''reddit'' \<longrightarrow>
      optimizeQueriesForSource source base tp =
        take 8 (dedup_first_seen (base @ [''learning '' @ tp, tp @ '' discussion'',
                                          tp @ '' help'', tp @ '' resources''])))
   \<and> (source = ''wikipedia'' \<longrightarrow>
      optimizeQueriesForSource source base tp =
        take 8 (dedup_first_seen (base @ [tp @ '' overview'', tp @ '' introduction'',
                                          tp @ '' theory'', tp @ '' principles''])))
   \<and> (source \<notin> {''wikipedia'', ''youtube'', ''reddit'', ''medium''} \<longrightarrow>
      optimizeQueriesForSource source base tp = take 8 (dedup_first_seen base))"
  by (simp add: optimizeQueriesForSource_def source_additions_def slice0_def new_Set_dedup)

theorem optimizer_appends_dedups_caps_witness:
  "optimizeQueriesForSource ''reddit'' [''a'', ''b'', ''a'', ''go help''] ''go''
     = [''a'', ''b'', ''go help'', ''learning go'', ''go discussion'', ''go resources'']
   \<and> ''github'' \<notin> {''wikipedia'', ''youtube'', ''reddit'', ''medium''}
   \<and> optimizeQueriesForSource ''github''
        [''a'', ''b'', ''a'', ''c'', ''d'', ''e'', ''f'', ''g'', ''h'', ''i''] ''go''
     = [''a'', ''b'', ''c'', ''d'', ''e'', ''f'', ''g'', ''h'']"
  using optimizer_appends_dedups_caps [of "''reddit''" "[''a'', ''b'', ''a'', ''go help'']" "''go''"]
        optimizer_appends_dedups_caps
          [of "''github''" "[''a'', ''b'', ''a'', ''c'', ''d'', ''e'', ''f'', ''g'', ''h'', ''i'']" "''go''"]
  by simp

section \<open>The end-to-end example\<close>

text \<open>
  Claim C3. For topic "rust ownership" and day 1 "Intro to ownership" (beginner, micro-topics
  "move semantics" and "borrowing") the synthesizer returns the four queries named by the
  specification. The wikipedia list built from that output is its first 8 queries:
  "rust ownership overview" is appended after 12 distinct base queries and is cut off by
  \<^verbatim>\<open>slice(0, 8)\<close>, so it is not in the list.
\<close>

theorem rust_example_overview_dropped:
  "''rust ownership Intro to ownership'' \<in> set (generateComprehensiveSearchQueries rust_plan rust_day1)
   \<and> ''rust ownership Intro to ownership fundamentals''
        \<in> set (generateComprehensiveSearchQueries rust_plan rust_day1)
   \<and> ''rust ownership move semantics'' \<in> set (generateComprehensiveSearchQueries rust_plan rust_day1)
   \<and> ''move semantics explained'' \<in> set (generateComprehensiveSearchQueries rust_plan rust_day1)
   \<and> ''rust ownership overview'' \<notin> set (optimizeQueriesForSource ''wikipedia''
          (generateComprehensiveSearchQueries rust_plan rust_day1) ''rust ownership'')
   \<and> optimizeQueriesForSource ''wikipedia''
          (generateComprehensiveSearchQueries rust_plan rust_day1) ''rust ownership''
       = take 8 (generateComprehensiveSearchQueries rust_plan rust_day1)"
  by code_simp

section \<open>Query Synthesizer: empty titles and micro-topics\<close>

lemma emitted_no_empty: "[] \<notin> set (emitted_queries p d)"
  by (auto simp: emitted_queries_def Let_def primary_queries_def phase_queries_def
        micro_queries_def doc_queries_def)

lemma set_generate_subset:
  "set (generateComprehensiveSearchQueries p d) \<subseteq> set (emitted_queries p d)"
  using set_take_subset [of 12 "new_Set (emitted_queries p d)"]
  by (simp add: generateComprehensiveSearchQueries_def slice0_def set_new_Set)

text \<open>
  Claim C7, as the code has it. No query of the output is the empty string, for every
  input. Nothing is skipped: an empty title or micro-topic is put into the templates as
  any other string, every micro-topic contributes its four queries to the emitted
  sequence, and the number of emitted queries depends on the number of micro-topics and on
  the phase only.
\<close>

theorem synthesizer_no_empty_query_nothing_skipped:
  "[] \<notin> set (generateComprehensiveSearchQueries p d)
   \<and> set (generateComprehensiveSearchQueries p d) \<subseteq> set (emitted_queries p d)
   \<and> (\<forall>m \<in> set (case microTopics d of None \<Rightarrow> [] | Some ms \<Rightarrow> ms).
         {topic p @ '' '' @ m, m @ '' explained'', m @ '' tutorial'',
          topic p @ '' '' @ m @ '' '' @ phase_or_beginner (phase d)} \<subseteq> set (emitted_queries p d))
   \<and> length (emitted_queries p d) =
        6 + 4 * length (case microTopics d of None \<Rightarrow> [] | Some ms \<Rightarrow> ms)
          + (if phase_or_beginner (phase d) \<in> {''beginner'', ''intermediate'', ''advanced''} then 3 else 0)"
proof (intro conjI)
  show "[] \<notin> set (generateComprehensiveSearchQueries p d)"
    using set_generate_subset [of p d] emitted_no_empty [of p d] by blast
  show "set (generateComprehensiveSearchQueries p d) \<subseteq> set (emitted_queries p d)"
    by (rule set_generate_subset)
  show "\<forall>m \<in> set (case microTopics d of None \<Rightarrow> [] | Some ms \<Rightarrow> ms).
         {topic p @ '' '' @ m, m @ '' explained'', m @ '' tutorial'',
          topic p @ '' '' @ m @ '' '' @ phase_or_beginner (phase d)} \<subseteq> set (emitted_queries p d)"
    by (auto simp: emitted_queries_def Let_def micro_queries_def)
  have "length (concat (map (micro_queries t ph) ms)) = 4 * length ms" for t ph ms
    by (induction ms) (simp_all add: micro_queries_def)
  then show "length (emitted_queries p d) =
        6 + 4 * length (case microTopics d of None \<Rightarrow> [] | Some ms \<Rightarrow> ms)
          + (if phase_or_beginner (phase d) \<in> {''beginner'', ''intermediate'', ''advanced''} then 3 else 0)"
    by (simp add: emitted_queries_def Let_def primary_queries_def phase_queries_def doc_queries_def)
qed

theorem synthesizer_no_empty_query_nothing_skipped_witness:
  "generateComprehensiveSearchQueries go_plan blank_day =
     [''go '', ''go  tutorial'', ''go  guide'', ''go  fundamentals'', ''go  basics'', ''learn go '',
      '' explained'', '' tutorial'', ''go  beginner'', ''go documentation'', ''go reference'',
      ''go technical guide'']
   \<and> [] \<notin> set (generateComprehensiveSearchQueries go_plan blank_day)
   \<and> {''go '', '' explained'', '' tutorial'', ''go  beginner''} \<subseteq> set (emitted_queries go_plan blank_day)
   \<and> length (emitted_queries go_plan blank_day) = 13"
proof -
  have out: "generateComprehensiveSearchQueries go_plan blank_day =
     [''go '', ''go  tutorial'', ''go  guide'', ''go  fundamentals'', ''go  basics'', ''learn go '',
      '' explained'', '' tutorial'', ''go  beginner'', ''go documentation'', ''go reference'',
      ''go technical guide'']"
    by code_simp
  have m: "[] \<in> set (case microTopics blank_day of None \<Rightarrow> [] | Some ms \<Rightarrow> ms)"
    by (simp add: blank_day_def)
  show ?thesis
    using synthesizer_no_empty_query_nothing_skipped [of go_plan blank_day] m out
    by (simp add: go_plan_def blank_day_def phase_or_beginner_def)
qed

text \<open>
  Against claim C7 as written: with an empty title and an empty micro-topic the queries
  built from them (" explained", " tutorial", "go  tutorial") are in the output, and the
  output differs from the one for the same day without the empty micro-topic.
\<close>

theorem empty_micro_topic_not_skipped:
  "'' explained'' \<in> set (generateComprehensiveSearchQueries go_plan blank_day)
   \<and> '' tutorial'' \<in> set (generateComprehensiveSearchQueries go_plan blank_day)
   \<and> ''go  tutorial'' \<in> set (generateComprehensiveSearchQueries go_plan blank_day)
   \<and> generateComprehensiveSearchQueries go_plan blank_day
       \<noteq> generateComprehensiveSearchQueries go_plan (blank_day\<lparr>microTopics := Some []\<rparr>)"
  by code_simp

section \<open>Query Synthesizer: the phase\<close>

text \<open>
  Claim C10. A day whose phase is missing or the empty string is treated as a beginner
  day: the emitted sequence holds the three beginner variants (and they are in the
  output), and the fourth query of every micro-topic ends in "beginner". A day whose
  phase is a non-empty string other than beginner, intermediate and advanced gets no
  phase-specific variant at all, and the fourth query of every micro-topic ends in that
  phase.
\<close>

theorem phase_default_and_unknown:
  "(phase d = None \<or> phase d = Some [] \<longrightarrow>
      emitted_queries p d =
        [topic p @ '' '' @ title d, topic p @ '' '' @ title d @ '' tutorial'',
         topic p @ '' '' @ title d @ '' guide'',
         topic p @ '' '' @ title d @ '' fundamentals'', topic p @ '' '' @ title d @ '' basics'',
         ''learn '' @ topic p @ '' '' @ title d]
        @ concat (map (\<lambda>m. [topic p @ '' '' @ m, m @ '' explained'', m @ '' tutorial'',
                              topic p @ '' '' @ m @ '' beginner''])
                      (case microTopics d of None \<Rightarrow> [] | Some ms \<Rightarrow> ms))
        @ [topic p @ '' documentation'', topic p @ '' reference'', topic p @ '' technical guide'']
      \<and> {topic p @ '' '' @ title d @ '' fundamentals'', topic p @ '' '' @ title d @ '' basics'',
          ''learn '' @ topic p @ '' '' @ title d} \<subseteq> set (generateComprehensiveSearchQueries p d))
   \<and> (\<forall>ph. phase d = Some ph \<and> ph \<notin> {[], ''beginner'', ''intermediate'', ''advanced''} \<longrightarrow>
      emitted_queries p d =
        [topic p @ '' '' @ title d, topic p @ '' '' @ title d @ '' tutorial'',
         topic p @ '' '' @ title d @ '' guide'']
        @ concat (map (\<lambda>m. [topic p @ '' '' @ m, m @ '' explained'', m @ '' tutorial'',
                              topic p @ '' '' @ m @ '' '' @ ph])
                      (case microTopics d of None \<Rightarrow> [] | Some ms \<Rightarrow> ms))
        @ [topic p @ '' documentation'', topic p @ '' reference'', topic p @ '' technical guide''])"
proof (intro conjI impI allI)
  assume missing: "phase d = None \<or> phase d = Some []"
  then have ph: "phase_or_beginner (phase d) = ''beginner''"
    by (auto simp: phase_or_beginner_def)
  show em: "emitted_queries p d =
        [topic p @ '' '' @ title d, topic p @ '' '' @ title d @ '' tutorial'',
         topic p @ '' '' @ title d @ '' guide'',
         topic p @ '' '' @ title d @ '' fundamentals'', topic p @ '' '' @ title d @ '' basics'',
         ''learn '' @ topic p @ '' '' @ title d]
        @ concat (map (\<lambda>m. [topic p @ '' '' @ m, m @ '' explained'', m @ '' tutorial'',
                              topic p @ '' '' @ m @ '' beginner''])
                      (case microTopics d of None \<Rightarrow> [] | Some ms \<Rightarrow> ms))
        @ [topic p @ '' documentation'', topic p @ '' reference'', topic p @ '' technical guide'']"
    unfolding emitted_queries_def Let_def ph
    by (simp add: primary_queries_def phase_queries_def micro_queries_def [abs_def] doc_queries_def)
  show "{topic p @ '' '' @ title d @ '' fundamentals'', topic p @ '' '' @ title d @ '' basics'',
          ''learn '' @ topic p @ '' '' @ title d} \<subseteq> set (generateComprehensiveSearchQueries p d)"
    unfolding generateComprehensiveSearchQueries_def em
    using slice0_new_Set_prefix [of "[topic p @ '' '' @ title d, topic p @ '' '' @ title d @ '' tutorial'',
         topic p @ '' '' @ title d @ '' guide'',
         topic p @ '' '' @ title d @ '' fundamentals'', topic p @ '' '' @ title d @ '' basics'',
         ''learn '' @ topic p @ '' '' @ title d]" 12]
    by simp
next
  fix ph
  assume "phase d = Some ph \<and> ph \<notin> {[], ''beginner'', ''intermediate'', ''advanced''}"
  then have ph: "phase_or_beginner (phase d) = ph" and other: "phase_queries (topic p) (title d) ph = []"
    by (auto simp: phase_or_beginner_def phase_queries_def)
  show "emitted_queries p d =
        [topic p @ '' '' @ title d, topic p @ '' '' @ title d @ '' tutorial'',
         topic p @ '' '' @ title d @ '' guide'']
        @ concat (map (\<lambda>m. [topic p @ '' '' @ m, m @ '' explained'', m @ '' tutorial'',
                              topic p @ '' '' @ m @ '' '' @ ph])
                      (case microTopics d of None \<Rightarrow> [] | Some ms \<Rightarrow> ms))
        @ [topic p @ '' documentation'', topic p @ '' reference'', topic p @ '' technical guide'']"
    unfolding emitted_queries_def Let_def ph other
    by (simp add: primary_queries_def micro_queries_def [abs_def] doc_queries_def)
qed

theorem phase_default_and_unknown_witness:
  "emitted_queries rust_plan (rust_day1\<lparr>phase := None, microTopics := Some [''borrowing'']\<rparr>) =
     [''rust ownership Intro to ownership'', ''rust ownership Intro to ownership tutorial'',
      ''rust ownership Intro to ownership guide'', ''rust ownership Intro to ownership fundamentals'',
      ''rust ownership Intro to ownership basics'', ''learn rust ownership Intro to ownership'',
      ''rust ownership borrowing'', ''borrowing explained'', ''borrowing tutorial'',
      ''rust ownership borrowing beginner'',
      ''rust ownership documentation'', ''rust ownership reference'', ''rust ownership technical guide'']
   \<and> ''expert'' \<notin> {[], ''beginner'', ''intermediate'', ''advanced''}
   \<and> emitted_queries rust_plan (rust_day1\<lparr>phase := Some ''expert'', microTopics := Some [''borrowing'']\<rparr>) =
     [''rust ownership Intro to ownership'', ''rust ownership Intro to ownership tutorial'',
      ''rust ownership Intro to ownership guide'',
      ''rust ownership borrowing'', ''borrowing explained'', ''borrowing tutorial'',
      ''rust ownership borrowing expert'',
      ''rust ownership documentation'', ''rust ownership reference'', ''rust ownership technical guide'']"
  using phase_default_and_unknown [of "rust_day1\<lparr>phase := None, microTopics := Some [''borrowing'']\<rparr>" rust_plan]
        phase_default_and_unknown [of "rust_day1\<lparr>phase := Some ''expert'', microTopics := Some [''borrowing'']\<rparr>" rust_plan]
  by (simp add: rust_plan_def rust_day1_def)

section \<open>Source Fetcher\<close>

lemma ascii_no_surrogate:
  "\<forall>c \<in> set s. (of_char c :: nat) < 128 \<Longrightarrow> \<not> has_lone_surrogate s"
  by (induction s rule: has_lone_surrogate.induct) auto

lemma has_lone_surrogate_append_ascii:
  assumes "\<forall>c \<in> set b. (of_char c :: nat) < 128"
  shows "has_lone_surrogate (a @ b) = has_lone_surrogate a"
proof (induction a rule: has_lone_surrogate.induct)
  case (1 x y rest)
  then show ?case by simp
next
  case 3
  from assms show ?case by (simp add: ascii_no_surrogate)
next
  case (2 x)
  show ?case
  proof (cases b)
    case Nil
    then show ?thesis by simp
  next
    case (Cons c cs)
    with assms have "(of_char c :: nat) < 128" and "\<not> has_lone_surrogate (c # cs)"
      by (simp_all add: ascii_no_surrogate)
    with Cons show ?thesis by simp
  qed
qed

lemma fallback_four:
  assumes "source \<in> {''wikipedia'', ''youtube'', ''reddit'', ''medium''}"
    and "\<not> has_lone_surrogate query"
  shows "\<exists>item. generateFallbackResults source query = Inr [item]"
proof -
  have "\<not> has_lone_surrogate (query @ '' tutorial'')"
    using assms(2) by (simp add: has_lone_surrogate_append_ascii)
  with assms show ?thesis
    unfolding generateFallbackResults_def encodeURIComponent_def
    by (elim insertE emptyE) simp_all
qed

lemma fallback_surrogate:
  "has_lone_surrogate query \<Longrightarrow> generateFallbackResults source query = Inl URIError"
  by (simp add: generateFallbackResults_def encodeURIComponent_def)

lemma fallback_inherited_name:
  "generateFallbackResults ''toString'' ''go'' = Inr [inherited_item ''toString'']
   \<and> generateFallbackResults ''github'' ''go'' = Inl TypeError"
  by code_simp

lemma fetch_TimedOut:
  "fetch_handlers e source query TimedOut = generateFallbackResults source query"
  by (simp add: fetch_handlers_def)

lemma fetch_SpawnError:
  "fetch_handlers e source query SpawnError = generateFallbackResults source query"
  by (simp add: fetch_handlers_def)

lemma fetch_Closed_failed:
  assumes "code \<noteq> Some 0 \<or> ws_only out \<or> JSON_parse e out = None"
  shows "fetch_handlers e source query (Closed code out) = generateFallbackResults source query"
proof (cases "code = Some 0 \<and> \<not> ws_only out")
  case True
  with assms have "JSON_parse e out = None" by blast
  with True show ?thesis by (simp add: fetch_handlers_def)
next
  case False
  then show ?thesis unfolding fetch_handlers_def by auto
qed

lemma fetch_Closed_array:
  assumes "JSON_parse e out = Some (JArr result)" and "\<not> ws_only out"
  shows "fetch_handlers e source query (Closed (Some 0) out) =
           (if filter valid_result result = [] then generateFallbackResults source query
            else Inr (filter valid_result result))"
  using assms unfolding fetch_handlers_def by (simp add: Let_def)

lemma fetch_Closed_not_array:
  assumes "JSON_parse e out = Some j" and "\<forall>result. j \<noteq> JArr result"
  shows "fetch_handlers e source query (Closed code out) = generateFallbackResults source query"
proof (cases "code = Some 0 \<and> \<not> ws_only out")
  case True
  with assms show ?thesis unfolding fetch_handlers_def
    by (cases j) simp_all
next
  case False
  then show ?thesis unfolding fetch_handlers_def by auto
qed

lemma fetch_cases:
  "fetch_handlers e source query oc = generateFallbackResults source query
   \<or> (\<exists>items. fetch_handlers e source query oc = Inr items \<and> items \<noteq> [])"
proof (cases oc)
  case (Closed c outp)
  show ?thesis
  proof (cases "c \<noteq> Some 0 \<or> ws_only outp \<or> JSON_parse e outp = None")
    case True
    then show ?thesis using Closed fetch_Closed_failed by blast
  next
    case False
    then obtain j where j: "JSON_parse e outp = Some j" and c: "c = Some 0" and w: "\<not> ws_only outp"
      by auto
    show ?thesis
    proof (cases "\<exists>result. j = JArr result")
      case True
      then obtain result where "j = JArr result" by blast
      with j w c Closed show ?thesis
        using fetch_Closed_array [of e outp result source query] by auto
    next
      case False
      with j Closed show ?thesis
        using fetch_Closed_not_array [of e outp j source query c] by simp
    qed
  qed
next
  case SpawnError
  then show ?thesis by (simp add: fetch_SpawnError)
next
  case TimedOut
  then show ?thesis by (simp add: fetch_TimedOut)
qed

text \<open>
  For the four sources of the pipeline and a query without U+0000 and without a lone
  surrogate: once the process is started, the fetcher resolves with a list that is not
  empty, whatever happens to the lookup.
\<close>

lemma fetch_resolves_nonempty:
  assumes "source \<in> {''wikipedia'', ''youtube'', ''reddit'', ''medium''}"
    and "CHR 0x00 \<notin> set query" and "\<not> has_lone_surrogate query"
  shows "\<exists>items. fetchResourcesFromSource e source query (Spawned oc) = Resolved items \<and> items \<noteq> []"
proof -
  obtain item where fb: "generateFallbackResults source query = Inr [item]"
    using fallback_four [OF assms(1) assms(3)] by blast
  then obtain items where h: "fetch_handlers e source query oc = Inr items" and ne: "items \<noteq> []"
    using fetch_cases [of e source query oc] by auto
  from assms(1) have "CHR 0x00 \<notin> set source"
    by (elim insertE emptyE) simp_all
  with assms(2) h ne show ?thesis by (simp add: fetchResourcesFromSource_def)
qed

text \<open>
  Claim C4 fails on the code. The fetcher is called with a query that holds U+0000:
  \<^verbatim>\<open>spawn\<close> raises in the executor and the promise is rejected. It is called with a query
  that holds a lone surrogate and the lookup times out: the timer's handler raises a
  URIError while it builds the fallback, and the promise is never resolved.
\<close>

theorem fetcher_rejects_query_with_nul:
  "fetchResourcesFromSource env_down ''wikipedia'' (nul_topic @ '' day 1 fundamentals'')
       (outcome_of_call env_down 0) = Rejected TypeError
   \<and> fetchResourcesFromSource env_down ''wikipedia'' (surrogate_topic @ '' day 1 fundamentals'')
       (outcome_of_call env_down 0) = Unsettled URIError"
  by code_simp






section \<open>Immediate-Resources fast path: days, queries, results\<close>

lemma string_of_nat_chars:
  "\<forall>c \<in> set (string_of_nat n). c \<noteq> CHR 0x00 \<and> (of_char c :: nat) < 128"
proof -
  define ds where "ds = ''0123456789''"
  define P where "P = (\<lambda>c :: char. c \<noteq> CHR 0x00 \<and> (of_char c :: nat) < 128)"
  have len: "length ds = 10" by (simp add: ds_def)
  have ok: "\<forall>c \<in> set ds. P c" by (simp add: ds_def P_def)
  have "\<forall>c \<in> set (string_of_nat n). P c"
  proof (induction n rule: string_of_nat.induct)
    case (1 n)
    show ?case
    proof (cases "n < 10")
      case True
      have "string_of_nat n = [ds ! n]"
        unfolding ds_def by (subst string_of_nat.simps) (simp only: True if_True)
      moreover have "ds ! n \<in> set ds" using True len by (simp only: nth_mem)
      ultimately show ?thesis using ok by simp
    next
      case False
      have "n mod 10 < length ds" unfolding len by simp
      then have m: "ds ! (n mod 10) \<in> set ds" by (rule nth_mem)
      have "string_of_nat n = string_of_nat (n div 10) @ [ds ! (n mod 10)]"
        unfolding ds_def by (subst string_of_nat.simps) (simp only: False if_False)
      with "1.IH" [OF False] m ok show ?thesis by auto
    qed
  qed
  then show ?thesis unfolding P_def .
qed

lemma string_of_int_chars:
  "\<forall>c \<in> set (string_of_int i). c \<noteq> CHR 0x00 \<and> (of_char c :: nat) < 128"
proof (cases "i < 0")
  case True
  then have "string_of_int i = CHR ''-'' # string_of_nat (nat (- i))"
    by (simp only: string_of_int_def if_True append_Cons append_Nil)
  moreover have "CHR ''-'' \<noteq> CHR 0x00 \<and> (of_char CHR ''-'' :: nat) < 128" by simp
  ultimately show ?thesis using string_of_nat_chars [of "nat (- i)"]
    by (simp only: list.set ball_simps) blast
next
  case False
  then have "string_of_int i = string_of_nat (nat i)" by (simp only: string_of_int_def if_False)
  then show ?thesis using string_of_nat_chars [of "nat i"] by (simp only:)
qed

lemma day_query_clean:
  assumes "CHR 0x00 \<notin> set tp" and "\<not> has_lone_surrogate tp"
  shows "CHR 0x00 \<notin> set (day_query tp n) \<and> \<not> has_lone_surrogate (day_query tp n)"
proof -
  define P where "P = (\<lambda>c :: char. c \<noteq> CHR 0x00 \<and> (of_char c :: nat) < 128)"
  define tl where "tl = '' day '' @ string_of_int n @ '' fundamentals''"
  have a: "\<forall>c \<in> set '' day ''. P c" by (simp add: P_def)
  have b: "\<forall>c \<in> set (string_of_int n). P c"
    using string_of_int_chars [of n] unfolding P_def .
  have c: "\<forall>c \<in> set '' fundamentals''. P c" by (simp add: P_def)
  have t: "\<forall>c \<in> set tl. P c"
    unfolding tl_def set_append using a b c by blast
  then have "\<forall>c \<in> set tl. (of_char c :: nat) < 128" unfolding P_def by blast
  then have s: "has_lone_surrogate (tp @ tl) = has_lone_surrogate tp"
    by (rule has_lone_surrogate_append_ascii)
  from t have "CHR 0x00 \<notin> set tl" unfolding P_def by blast
  with assms(1) have "CHR 0x00 \<notin> set (tp @ tl)" by simp
  with s assms(2) show ?thesis unfolding day_query_def tl_def by simp
qed

lemma fetch_resolved_items:
  assumes "source \<in> {''wikipedia'', ''youtube'', ''reddit'', ''medium''}"
    and "CHR 0x00 \<notin> set query" and "\<not> has_lone_surrogate query" and "sr \<noteq> SpawnRaised"
  shows "fetchResourcesFromSource e source query sr
           = Resolved (resolved_items (fetchResourcesFromSource e source query sr))"
proof -
  from assms(4) obtain oc where "sr = Spawned oc" by (cases sr) auto
  then obtain items where "fetchResourcesFromSource e source query sr = Resolved items"
    using fetch_resolves_nonempty [OF assms(1-3), of e oc] by auto
  then show ?thesis by (simp add: resolved_items_def)
qed

lemma then_fetch_resolved:
  assumes "source \<in> {''wikipedia'', ''youtube'', ''reddit'', ''medium''}"
    and "CHR 0x00 \<notin> set query" and "\<not> has_lone_surrogate query"
    and "\<forall>i. outcome_of_call e i \<noteq> SpawnRaised"
  shows "then_fetch e source query w k =
           k (resolved_items (fetchResourcesFromSource e source query (outcome_of_call e (length (calls w)))))
             (w\<lparr>calls := calls w @ [(source, query)]\<rparr>)"
proof -
  from assms(4) have "outcome_of_call e (length (calls w)) \<noteq> SpawnRaised" by blast
  from fetch_resolved_items [OF assms(1-3) this, of e]
  obtain items where r: "fetchResourcesFromSource e source query (outcome_of_call e (length (calls w))) = Resolved items"
    by blast
  then show ?thesis by (simp add: then_fetch_def await_fetch_def resolved_items_def)
qed

lemma immediate_day_eq:
  assumes "CHR 0x00 \<notin> set q" and "\<not> has_lone_surrogate q"
    and "\<forall>i. outcome_of_call e i \<noteq> SpawnRaised"
  shows "immediate_day e q w =
     Resolved ([(''wikipedia'', resolved_items (fetchResourcesFromSource e ''wikipedia'' q (outcome_of_call e (length (calls w))))),
            (''youtube'', resolved_items (fetchResourcesFromSource e ''youtube'' q (outcome_of_call e (length (calls w) + 1)))),
            (''reddit'', resolved_items (fetchResourcesFromSource e ''reddit'' q (outcome_of_call e (length (calls w) + 2)))),
            (''medium'', resolved_items (fetchResourcesFromSource e ''medium'' q (outcome_of_call e (length (calls w) + 3))))],
           w\<lparr>calls := calls w @ [(''wikipedia'', q), (''youtube'', q), (''reddit'', q), (''medium'', q)]\<rparr>)"
  by (simp add: immediate_day_def then_fetch_resolved [OF _ assms] eval_nat_numeral)

lemma immediate_loop_eq:
  assumes "CHR 0x00 \<notin> set tp" and "\<not> has_lone_surrogate tp"
    and "\<forall>i. outcome_of_call e i \<noteq> SpawnRaised"
  shows "immediate_loop e tp duration dy acc w =
     Resolved (acc @ map (\<lambda>n. day_entry e tp (length (calls w) + 4 * nat (n - dy)) n) [dy .. \<lfloor>min duration 5\<rfloor>],
           w\<lparr>calls := calls w @ concat (map (day_calls tp) [dy .. \<lfloor>min duration 5\<rfloor>])\<rparr>)"
  using assms
proof (induction e tp duration dy acc w rule: immediate_loop.induct)
  case (1 e tp duration dy acc w)
  let ?m = "\<lfloor>min duration 5\<rfloor>"
  show ?case
  proof (cases "of_int dy \<le> min duration 5")
    case False
    then have "\<not> dy \<le> ?m" unfolding le_floor_iff .
    then have "[dy .. ?m] = []" by simp
    moreover from False have "immediate_loop e tp duration dy acc w = Resolved (acc, w)"
      by (subst immediate_loop.simps) (simp only: if_False)
    ultimately show ?thesis by simp
  next
    case True
    then have le: "dy \<le> ?m" unfolding le_floor_iff .
    let ?q = "tp @ '' day '' @ string_of_int dy @ '' fundamentals''"
    let ?w1 = "w\<lparr>calls := calls w @ [(''wikipedia'', ?q), (''youtube'', ?q), (''reddit'', ?q), (''medium'', ?q)]\<rparr>"
    let ?today = "day_entry e tp (length (calls w)) dy"
    have clean: "CHR 0x00 \<notin> set ?q \<and> \<not> has_lone_surrogate ?q"
      using day_query_clean [OF "1.prems"(1,2), of dy] unfolding day_query_def .
    have up: "[dy .. ?m] = dy # [dy + 1 .. ?m]"
      using le by (simp add: upto_rec1)
    have l1: "length (calls ?w1) = length (calls w) + 4" by simp
    have shift: "map (\<lambda>n. day_entry e tp (length (calls ?w1) + 4 * nat (n - (dy + 1))) n) [dy + 1 .. ?m]
                 = map (\<lambda>n. day_entry e tp (length (calls w) + 4 * nat (n - dy)) n) [dy + 1 .. ?m]"
    proof (rule map_cong [OF refl])
      fix n assume "n \<in> set [dy + 1 .. ?m]"
      then have "dy + 1 \<le> n" by simp
      then have "nat (n - dy) = Suc (nat (n - (dy + 1)))" by linarith
      then have "length (calls ?w1) + 4 * nat (n - (dy + 1)) = length (calls w) + 4 * nat (n - dy)"
        unfolding l1 by simp
      then show "day_entry e tp (length (calls ?w1) + 4 * nat (n - (dy + 1))) n
                 = day_entry e tp (length (calls w) + 4 * nat (n - dy)) n"
        by (simp only:)
    qed
    have today: "immediate_day e ?q w = Resolved (snd ?today, ?w1)"
      using immediate_day_eq [OF conjunct1 [OF clean] conjunct2 [OF clean] "1.prems"(3), of w]
      by (simp add: day_entry_def day_query_def)
    have pair: "(dy, snd ?today) = ?today" by (simp add: day_entry_def)
    have step: "immediate_loop e tp duration dy acc w =
                immediate_loop e tp duration (dy + 1) (acc @ [?today]) ?w1"
      by (subst immediate_loop.simps)
         (simp only: True if_True Let_def today promise.case prod.case pair)
    have IH: "immediate_loop e tp duration (dy + 1) (acc @ [?today]) ?w1 =
       Resolved ((acc @ [?today])
               @ map (\<lambda>n. day_entry e tp (length (calls ?w1) + 4 * nat (n - (dy + 1))) n) [dy + 1 .. ?m],
             ?w1\<lparr>calls := calls ?w1 @ concat (map (day_calls tp) [dy + 1 .. ?m])\<rparr>)"
      using "1.IH" [OF True refl today refl "1.prems"]
      by (simp add: day_entry_def)
    have head: "day_entry e tp (length (calls w) + 4 * nat (dy - dy)) dy = ?today" by simp
    have res: "map (\<lambda>n. day_entry e tp (length (calls w) + 4 * nat (n - dy)) n) [dy .. ?m]
               = ?today # map (\<lambda>n. day_entry e tp (length (calls w) + 4 * nat (n - dy)) n) [dy + 1 .. ?m]"
      by (subst up) (simp only: list.map head)
    have cs: "concat (map (day_calls tp) [dy .. ?m])
              = day_calls tp dy @ concat (map (day_calls tp) [dy + 1 .. ?m])"
      by (subst up) simp
    show ?thesis
      unfolding step IH shift res cs
      by (simp add: day_calls_def day_query_def)
  qed
qed

text \<open>
  What the fast path does when no call of the fetcher fails outward. For a topic without
  U+0000 and without a lone surrogate, every duration, and lookups none of which raises in
  \<^verbatim>\<open>spawn\<close>, the fast path returns. It calls the fetcher for the days 1 to the whole
  part of min(duration, 5) only, four times per day, once for each source in the order
  wikipedia, youtube, reddit, medium, each time with the query "topic day n fundamentals";
  the entry of each day maps the four sources to the lists the fetcher resolved with,
  unfiltered; the store is left as it was.
\<close>

lemma immediate_resources_first_five_days:
  assumes "CHR 0x00 \<notin> set tp" and "\<not> has_lone_surrogate tp"
    and "\<forall>i. outcome_of_call e i \<noteq> SpawnRaised"
  shows "generateImmediateResources e tp duration w =
     Resolved (map (\<lambda>n. day_entry e tp (length (calls w) + 4 * nat (n - 1)) n) [1 .. \<lfloor>min duration 5\<rfloor>],
           w\<lparr>calls := calls w @ concat (map (day_calls tp) [1 .. \<lfloor>min duration 5\<rfloor>])\<rparr>)
   \<and> (\<forall>res w'. generateImmediateResources e tp duration w = Resolved (res, w') \<longrightarrow>
         store w' = store w
         \<and> map fst res = [1 .. \<lfloor>min duration 5\<rfloor>]
         \<and> (\<forall>(source, query) \<in> set (drop (length (calls w)) (calls w')).
               source \<in> {''wikipedia'', ''youtube'', ''reddit'', ''medium''}
               \<and> (\<exists>n. 1 \<le> n \<and> n \<le> 5 \<and> of_int n \<le> duration
                      \<and> query = tp @ '' day '' @ string_of_int n @ '' fundamentals'')))
   \<and> (\<forall>n. \<forall>source \<in> {''wikipedia'', ''youtube'', ''reddit'', ''medium''}. \<forall>sr.
         sr \<noteq> SpawnRaised \<longrightarrow>
         fetchResourcesFromSource e source (day_query tp n) sr
           = Resolved (resolved_items (fetchResourcesFromSource e source (day_query tp n) sr)))"
proof -
  let ?m = "\<lfloor>min duration 5\<rfloor>"
  have eq: "generateImmediateResources e tp duration w =
     Resolved (map (\<lambda>n. day_entry e tp (length (calls w) + 4 * nat (n - 1)) n) [1 .. ?m],
           w\<lparr>calls := calls w @ concat (map (day_calls tp) [1 .. ?m])\<rparr>)"
    by (simp add: generateImmediateResources_def immediate_loop_eq [OF assms])
  have shape: "store w' = store w
         \<and> map fst res = [1 .. ?m]
         \<and> (\<forall>(source, query) \<in> set (drop (length (calls w)) (calls w')).
               source \<in> {''wikipedia'', ''youtube'', ''reddit'', ''medium''}
               \<and> (\<exists>n. 1 \<le> n \<and> n \<le> 5 \<and> of_int n \<le> duration
                      \<and> query = tp @ '' day '' @ string_of_int n @ '' fundamentals''))"
    if run: "generateImmediateResources e tp duration w = Resolved (res, w')" for res w'
  proof -
    from run eq
    have res: "res = map (\<lambda>n. day_entry e tp (length (calls w) + 4 * nat (n - 1)) n) [1 .. ?m]"
      and w': "w' = w\<lparr>calls := calls w @ concat (map (day_calls tp) [1 .. ?m])\<rparr>"
      by simp_all
    have s: "store w' = store w" by (simp add: w')
    have d: "map fst res = [1 .. ?m]"
      unfolding res by (simp add: day_entry_def comp_def)
    have bound: "n \<le> 5 \<and> of_int n \<le> duration" if "n \<le> ?m" for n
    proof -
      from that have "of_int n \<le> min duration 5" unfolding le_floor_iff .
      then have "(of_int n :: rat) \<le> 5" and "of_int n \<le> duration" by simp_all
      then show ?thesis by simp
    qed
    have c: "\<forall>(source, query) \<in> set (drop (length (calls w)) (calls w')).
               source \<in> {''wikipedia'', ''youtube'', ''reddit'', ''medium''}
               \<and> (\<exists>n. 1 \<le> n \<and> n \<le> 5 \<and> of_int n \<le> duration
                      \<and> query = tp @ '' day '' @ string_of_int n @ '' fundamentals'')"
      unfolding w' using bound by (auto simp: day_calls_def day_query_def)
    from s d c show ?thesis by (intro conjI)
  qed
  have direct: "\<forall>n. \<forall>source \<in> {''wikipedia'', ''youtube'', ''reddit'', ''medium''}. \<forall>sr.
         sr \<noteq> SpawnRaised \<longrightarrow>
         fetchResourcesFromSource e source (day_query tp n) sr
           = Resolved (resolved_items (fetchResourcesFromSource e source (day_query tp n) sr))"
  proof (intro ballI allI impI)
    fix n source sr
    assume s: "source \<in> {''wikipedia'', ''youtube'', ''reddit'', ''medium''}" and sr: "sr \<noteq> SpawnRaised"
    from day_query_clean [OF assms(1,2), of n]
    have "CHR 0x00 \<notin> set (day_query tp n)" and "\<not> has_lone_surrogate (day_query tp n)" by simp_all
    from fetch_resolved_items [OF s this sr]
    show "fetchResourcesFromSource e source (day_query tp n) sr
           = Resolved (resolved_items (fetchResourcesFromSource e source (day_query tp n) sr))" .
  qed
  from shape have shape': "\<forall>res w'. generateImmediateResources e tp duration w = Resolved (res, w') \<longrightarrow>
         store w' = store w
         \<and> map fst res = [1 .. ?m]
         \<and> (\<forall>(source, query) \<in> set (drop (length (calls w)) (calls w')).
               source \<in> {''wikipedia'', ''youtube'', ''reddit'', ''medium''}
               \<and> (\<exists>n. 1 \<le> n \<and> n \<le> 5 \<and> of_int n \<le> duration
                      \<and> query = tp @ '' day '' @ string_of_int n @ '' fundamentals''))"
    by blast
  from eq shape' direct show ?thesis by (intro conjI)
qed

lemma string_of_int_digits:
  "string_of_int 1 = ''1''" "string_of_int 2 = ''2''" "string_of_int 3 = ''3''"
  "string_of_int 4 = ''4''" "string_of_int 5 = ''5''"
  by code_simp+

lemma immediate_resources_first_five_days_witness:
  "CHR 0x00 \<notin> set ''go'' \<and> \<not> has_lone_surrogate ''go''
   \<and> (\<forall>i. outcome_of_call env_down i \<noteq> SpawnRaised)
   \<and> (case generateImmediateResources env_down ''go'' 30 \<lparr>calls = [], store = []\<rparr> of
        Resolved (res, w') \<Rightarrow> Some (map fst res, calls w', store w')
      | Rejected err \<Rightarrow> None
      | Unsettled err \<Rightarrow> None)
   = Some ([1, 2, 3, 4, 5],
           [(''wikipedia'', ''go day 1 fundamentals''), (''youtube'', ''go day 1 fundamentals''),
            (''reddit'', ''go day 1 fundamentals''), (''medium'', ''go day 1 fundamentals''),
            (''wikipedia'', ''go day 2 fundamentals''), (''youtube'', ''go day 2 fundamentals''),
            (''reddit'', ''go day 2 fundamentals''), (''medium'', ''go day 2 fundamentals''),
            (''wikipedia'', ''go day 3 fundamentals''), (''youtube'', ''go day 3 fundamentals''),
            (''reddit'', ''go day 3 fundamentals''), (''medium'', ''go day 3 fundamentals''),
            (''wikipedia'', ''go day 4 fundamentals''), (''youtube'', ''go day 4 fundamentals''),
            (''reddit'', ''go day 4 fundamentals''), (''medium'', ''go day 4 fundamentals''),
            (''wikipedia'', ''go day 5 fundamentals''), (''youtube'', ''go day 5 fundamentals''),
            (''reddit'', ''go day 5 fundamentals''), (''medium'', ''go day 5 fundamentals'')],
           [])
   \<and> (case generateImmediateResources env_down ''go'' (5 / 2) \<lparr>calls = [], store = []\<rparr> of
        Resolved (res, w') \<Rightarrow> Some (map fst res, length (calls w'))
      | Rejected err \<Rightarrow> None
      | Unsettled err \<Rightarrow> None)
     = Some ([1, 2], 8)"
proof -
  have h1: "CHR 0x00 \<notin> set ''go''" by simp
  have h2: "\<not> has_lone_surrogate ''go''" by simp
  have h3: "\<forall>i. outcome_of_call env_down i \<noteq> SpawnRaised" by (simp add: env_down_def)
  have up: "[1 .. \<lfloor>min 30 (5::rat)\<rfloor>] = [1, 2, 3, 4, 5]" by (simp add: upto_rec1)
  have f: "\<lfloor>min (5 / 2) (5::rat)\<rfloor> = 2" by (simp add: min_def floor_eq_iff)
  have up2: "[1 .. \<lfloor>min (5 / 2) (5::rat)\<rfloor>] = [1, 2]" unfolding f by (simp add: upto_rec1)
  note inst = immediate_resources_first_five_days [OF h1 h2 h3, of 30 "\<lparr>calls = [], store = []\<rparr>"]
  note inst2 = immediate_resources_first_five_days [OF h1 h2 h3, of "5 / 2" "\<lparr>calls = [], store = []\<rparr>"]
  have run: "generateImmediateResources env_down ''go'' 30 \<lparr>calls = [], store = []\<rparr> =
     Resolved (map (\<lambda>n. day_entry env_down ''go'' (4 * nat (n - 1)) n) [1, 2, 3, 4, 5],
           \<lparr>calls = concat (map (day_calls ''go'') [1, 2, 3, 4, 5]), store = []\<rparr>)"
    using inst [THEN conjunct1] unfolding up by simp
  have run2: "generateImmediateResources env_down ''go'' (5 / 2) \<lparr>calls = [], store = []\<rparr> =
     Resolved (map (\<lambda>n. day_entry env_down ''go'' (4 * nat (n - 1)) n) [1, 2],
           \<lparr>calls = concat (map (day_calls ''go'') [1, 2]), store = []\<rparr>)"
    using inst2 [THEN conjunct1] unfolding up2 by simp
  have b: "concat (map (day_calls ''go'') [1, 2, 3, 4, 5]) =
           [(''wikipedia'', ''go day 1 fundamentals''), (''youtube'', ''go day 1 fundamentals''),
            (''reddit'', ''go day 1 fundamentals''), (''medium'', ''go day 1 fundamentals''),
            (''wikipedia'', ''go day 2 fundamentals''), (''youtube'', ''go day 2 fundamentals''),
            (''reddit'', ''go day 2 fundamentals''), (''medium'', ''go day 2 fundamentals''),
            (''wikipedia'', ''go day 3 fundamentals''), (''youtube'', ''go day 3 fundamentals''),
            (''reddit'', ''go day 3 fundamentals''), (''medium'', ''go day 3 fundamentals''),
            (''wikipedia'', ''go day 4 fundamentals''), (''youtube'', ''go day 4 fundamentals''),
            (''reddit'', ''go day 4 fundamentals''), (''medium'', ''go day 4 fundamentals''),
            (''wikipedia'', ''go day 5 fundamentals''), (''youtube'', ''go day 5 fundamentals''),
            (''reddit'', ''go day 5 fundamentals''), (''medium'', ''go day 5 fundamentals'')]"
    by (simp add: day_calls_def day_query_def string_of_int_digits)
  have a: "(case generateImmediateResources env_down ''go'' 30 \<lparr>calls = [], store = []\<rparr> of
        Resolved (res, w') \<Rightarrow> Some (map fst res, calls w', store w')
      | Rejected err \<Rightarrow> None
      | Unsettled err \<Rightarrow> None)
     = Some ([1, 2, 3, 4, 5],
           [(''wikipedia'', ''go day 1 fundamentals''), (''youtube'', ''go day 1 fundamentals''),
            (''reddit'', ''go day 1 fundamentals''), (''medium'', ''go day 1 fundamentals''),
            (''wikipedia'', ''go day 2 fundamentals''), (''youtube'', ''go day 2 fundamentals''),
            (''reddit'', ''go day 2 fundamentals''), (''medium'', ''go day 2 fundamentals''),
            (''wikipedia'', ''go day 3 fundamentals''), (''youtube'', ''go day 3 fundamentals''),
            (''reddit'', ''go day 3 fundamentals''), (''medium'', ''go day 3 fundamentals''),
            (''wikipedia'', ''go day 4 fundamentals''), (''youtube'', ''go day 4 fundamentals''),
            (''reddit'', ''go day 4 fundamentals''), (''medium'', ''go day 4 fundamentals''),
            (''wikipedia'', ''go day 5 fundamentals''), (''youtube'', ''go day 5 fundamentals''),
            (''reddit'', ''go day 5 fundamentals''), (''medium'', ''go day 5 fundamentals'')],
           [])"
    unfolding run b by (simp add: day_entry_def)
  have a2: "(case generateImmediateResources env_down ''go'' (5 / 2) \<lparr>calls = [], store = []\<rparr> of
        Resolved (res, w') \<Rightarrow> Some (map fst res, length (calls w'))
      | Rejected err \<Rightarrow> None
      | Unsettled err \<Rightarrow> None)
     = Some ([1, 2], 8)"
    unfolding run2 by (simp add: day_entry_def day_calls_def)
  show ?thesis
    by (rule conjI [OF h1 conjI [OF h2 conjI [OF h3 conjI [OF a a2]]]])
qed

text \<open>
  Claim C9 fails on the code. For the topic "go" followed by U+0000 and the duration 30,
  the first call of the fetcher (day 1, wikipedia) is rejected; the fast path has no
  \<^verbatim>\<open>try\<close> around its fetches, as the loop of the aggregator has, so the fast path is
  rejected: no list is returned for any of the days 1 to 5, and the other nineteen
  lookups are never issued.
\<close>

theorem immediate_resources_rejects_nul_topic:
  "await_fetch env_down ''wikipedia'' (day_query nul_topic 1) world0
     = (Rejected TypeError, \<lparr>calls = [(''wikipedia'', day_query nul_topic 1)], store = []\<rparr>)
   \<and> generateImmediateResources env_down nul_topic 30 world0 = Rejected TypeError"
proof -
  let ?q = "nul_topic @ '' day '' @ string_of_int 1 @ '' fundamentals''"
  have nul: "CHR 0x00 \<in> set ?q" by (simp add: nul_topic_def)
  then have first: "fetchResourcesFromSource env_down ''wikipedia'' ?q (outcome_of_call env_down (length (calls world0)))
                 = Rejected TypeError"
    by (simp only: fetchResourcesFromSource_def simp_thms if_True)
  have aw: "await_fetch env_down ''wikipedia'' (day_query nul_topic 1) world0
     = (Rejected TypeError, \<lparr>calls = [(''wikipedia'', day_query nul_topic 1)], store = []\<rparr>)"
    unfolding await_fetch_def day_query_def first by (simp add: world0_def)
  have day1: "immediate_day env_down ?q world0 = Rejected TypeError"
    by (simp only: immediate_day_def then_fetch_def await_fetch_def first Let_def prod.case promise.case)
  have cond: "of_int 1 \<le> min (30::rat) 5" by simp
  have run: "generateImmediateResources env_down nul_topic 30 world0 = Rejected TypeError"
    unfolding generateImmediateResources_def
    by (subst immediate_loop.simps) (simp only: cond if_True Let_def day1 promise.case)
  from aw run show ?thesis by (rule conjI)
qed

section \<open>Day Aggregator: what every persisted record satisfies\<close>

lemma filter_raising_Inr:
  "filter_raising p xs = Inr ys \<Longrightarrow> ys = filter (\<lambda>x. p x = Inr True) xs"
proof (induction xs arbitrary: ys)
  case Nil
  then show ?case by simp
next
  case (Cons x xs)
  then show ?case
    by (auto split: sum.splits if_splits)
qed

lemma keep_resource_url_ok: "keep_resource r = Inr True \<Longrightarrow> url_ok r"
  by (auto simp: keep_resource_def url_ok_def Let_def split: if_splits option.splits json.splits)

lemma fetch_queries_keeps:
  "fetch_queries e source qs w allr = Some (w', allr') \<Longrightarrow>
   \<forall>r \<in> set allr. url_ok r \<Longrightarrow>
   store w' = store w \<and> (\<forall>r \<in> set allr'. url_ok r)"
proof (induction qs arbitrary: w allr)
  case Nil
  then show ?case by simp
next
  case (Cons q qs)
  obtain p w1 where aw: "await_fetch e source q w = (p, w1)" by (cases "await_fetch e source q w")
  then have st: "store w1 = store w" by (auto simp: await_fetch_def)
  show ?case
  proof (cases p)
    case (Unsettled err)
    with Cons.prems(1) aw show ?thesis by simp
  next
    case (Rejected err)
    with Cons.prems(1) aw
    have "fetch_queries e source qs w1 allr = Some (w', allr')" by simp
    from Cons.IH [OF this Cons.prems(2)] st show ?thesis by simp
  next
    case (Resolved resources)
    show ?thesis
    proof (cases "resources \<noteq> [] \<and> (\<exists>v. filter_raising keep_resource resources = Inr v)")
      case True
      then obtain v where v: "filter_raising keep_resource resources = Inr v" by blast
      then have "\<forall>r \<in> set v. url_ok r"
        using filter_raising_Inr [OF v] keep_resource_url_ok by auto
      with Cons.prems(2) have ok: "\<forall>r \<in> set (allr @ v). url_ok r" by auto
      from Cons.prems(1) aw Resolved True v
      have "fetch_queries e source qs w1 (allr @ v) = Some (w', allr')" by simp
      from Cons.IH [OF this ok] st show ?thesis by simp
    next
      case False
      with Cons.prems(1) aw Resolved
      have "fetch_queries e source qs w1 allr = Some (w', allr')"
        by (auto split: sum.splits if_splits)
      from Cons.IH [OF this Cons.prems(2)] st show ?thesis by simp
    qed
  qed
qed

lemma findIndex_props:
  "findIndex P xs = int k \<Longrightarrow> k < length xs \<and> P (xs ! k) \<and> (\<forall>m < k. \<not> P (xs ! m))"
proof (induction xs arbitrary: k)
  case Nil
  then show ?case by simp
next
  case (Cons x xs)
  show ?case
  proof (cases "P x")
    case True
    with Cons.prems show ?thesis by simp
  next
    case False
    with Cons.prems have nn: "\<not> findIndex P xs < 0" and eq: "findIndex P xs + 1 = int k"
      by (auto simp: Let_def split: if_splits)
    then obtain k' where k': "k = Suc k'" and f: "findIndex P xs = int k'"
      by (cases k) auto
    from Cons.IH [OF f] have "k' < length xs" "P (xs ! k')" "\<forall>m < k'. \<not> P (xs ! m)" by auto
    with False k' show ?thesis by (auto simp: less_Suc_eq_0_disj)
  qed
qed

lemma zip_filter_index:
  "map fst (filter (\<lambda>(x, i). Q x i) (zip xs [0 ..< length xs]))
   = map (\<lambda>i. xs ! i) (filter (\<lambda>i. Q (xs ! i) i) [0 ..< length xs])"
proof -
  have "zip xs [0 ..< length xs] = map (\<lambda>i. (xs ! i, i)) [0 ..< length xs]"
    by (rule nth_equalityI) simp_all
  then show ?thesis by (simp add: filter_map comp_def)
qed

lemma uniqueResources_Inr:
  assumes "uniqueResources allr = Inr u"
  shows "set u \<subseteq> set allr \<and> distinct (map (\<lambda>r. get_prop r ''url'') u)"
proof -
  let ?sel = "\<lambda>i. int i = findIndex (\<lambda>r. get_prop r ''url'' = get_prop (allr ! i) ''url'') allr"
  from assms have u: "u = map (\<lambda>i. allr ! i) (filter ?sel [0 ..< length allr])"
    using zip_filter_index [of "\<lambda>resource index. int index = findIndex (\<lambda>r. get_prop r ''url'' = get_prop resource ''url'') allr" allr]
    by (auto simp: uniqueResources_def split: if_splits)
  have sub: "set u \<subseteq> set allr" unfolding u by auto
  have inj: "inj_on (\<lambda>i. get_prop (allr ! i) ''url'') (set (filter ?sel [0 ..< length allr]))"
  proof (rule inj_onI)
    fix i j
    assume i: "i \<in> set (filter ?sel [0 ..< length allr])"
       and j: "j \<in> set (filter ?sel [0 ..< length allr])"
       and eq: "get_prop (allr ! i) ''url'' = get_prop (allr ! j) ''url''"
    from i have "int i = findIndex (\<lambda>r. get_prop r ''url'' = get_prop (allr ! i) ''url'') allr" by simp
    moreover from j eq have "int j = findIndex (\<lambda>r. get_prop r ''url'' = get_prop (allr ! i) ''url'') allr" by simp
    ultimately show "i = j" by simp
  qed
  have "distinct (map (\<lambda>i. get_prop (allr ! i) ''url'') (filter ?sel [0 ..< length allr]))"
    using inj by (simp add: distinct_map)
  then have "distinct (map (\<lambda>r. get_prop r ''url'') u)"
    unfolding u by (simp add: comp_def)
  with sub show ?thesis by simp
qed

lemma aggregate_source_store:
  assumes "aggregate_source e planId dayNumber searchQueries tp source w = Some w'"
  shows "store w' = store w \<or> (\<exists>r. store w' = store w @ [r] \<and> good_record r)"
proof -
  from assms obtain w1 allr where
    fq: "fetch_queries e source (optimizeQueriesForSource source searchQueries tp) w [] = Some (w1, allr)"
    by (auto simp: aggregate_source_def Let_def split: option.splits)
  from fetch_queries_keeps [OF fq] have st: "store w1 = store w" and ok: "\<forall>r \<in> set allr. url_ok r"
    by auto
  show ?thesis
  proof (cases "uniqueResources allr")
    case (Inl err)
    with assms fq st show ?thesis by (simp add: aggregate_source_def)
  next
    case (Inr u)
    from uniqueResources_Inr [OF Inr] have sub: "set u \<subseteq> set allr"
      and d: "distinct (map (\<lambda>r. get_prop r ''url'') u)" by auto
    show ?thesis
    proof (cases "slice0 5 u = []")
      case True
      with assms fq st Inr show ?thesis by (simp add: aggregate_source_def Let_def)
    next
      case False
      let ?r = "\<lparr>res_planId = planId, res_day = dayNumber, res_source = source, res_data = slice0 5 u\<rparr>"
      from assms fq Inr False have w': "w' = w1\<lparr>store := store w1 @ [?r]\<rparr>"
        by (simp add: aggregate_source_def Let_def)
      have "set (slice0 5 u) \<subseteq> set allr"
        using sub set_take_subset [of 5 u] by (auto simp: slice0_def)
      with ok have urls: "\<forall>i \<in> set (slice0 5 u). url_ok i"
        by auto
      have "distinct (map (\<lambda>r. get_prop r ''url'') (slice0 5 u))"
        using d by (simp add: slice0_def take_map [symmetric] distinct_take)
      with False urls have "good_record ?r"
        by (simp add: good_record_def slice0_def)
      with w' st show ?thesis by auto
    qed
  qed
qed

lemma for_sources_store:
  "for_sources e planId dayNumber searchQueries tp srcs w = Some w' \<Longrightarrow>
   \<forall>r \<in> set (store w'). r \<in> set (store w) \<or> good_record r"
proof (induction srcs arbitrary: w)
  case Nil
  then show ?case by simp
next
  case (Cons s srcs)
  from Cons.prems obtain w1 where
    w1: "aggregate_source e planId dayNumber searchQueries tp s w = Some w1"
    and rest: "for_sources e planId dayNumber searchQueries tp srcs w1 = Some w'"
    by (auto split: option.splits)
  from aggregate_source_store [OF w1]
  have a: "\<forall>r \<in> set (store w1). r \<in> set (store w) \<or> good_record r" by auto
  from Cons.IH [OF rest] a show ?case by blast
qed

lemma for_days_store:
  "for_days e planId p ds w = Some w' \<Longrightarrow>
   \<forall>r \<in> set (store w'). r \<in> set (store w) \<or> good_record r"
proof (induction ds arbitrary: w)
  case Nil
  then show ?case by simp
next
  case (Cons d ds)
  from Cons.prems obtain w1 where
    w1: "for_sources e planId (day d) (generateComprehensiveSearchQueries p d) (topic p) sources w = Some w1"
    and rest: "for_days e planId p ds w1 = Some w'"
    by (auto simp: Let_def split: option.splits)
  from for_sources_store [OF w1] Cons.IH [OF rest] show ?case by blast
qed

text \<open>
  Whenever the orchestrator completes, every record it has added to the store holds one
  to five items that passed the filter, each with a string url that is not blank, no two
  with the same url.
\<close>

lemma persisted_records_shape:
  "fetchResourcesForPlan e planId p w = Some w' \<Longrightarrow>
   \<forall>r \<in> set (store w'). r \<in> set (store w) \<or> good_record r"
  unfolding fetchResourcesForPlan_def by (rule for_days_store)

section \<open>Day Aggregator: fallback items reach the store\<close>

text \<open>
  Claim C1 fails on the code. For a one-day plan whose first wikipedia lookup returns one
  real result and whose other lookups all time out, \<^verbatim>\<open>fetchResourcesForPlan\<close> persists
  four records of five items each; the wikipedia record holds the real result followed by
  four items of the Fallback Synthesizer, the other three hold five such items. The
  filter tests \<^verbatim>\<open>r.metadata?.fallback\<close>, a field the synthesizer never sets: it marks its
  items with \<^verbatim>\<open>type: 'fallback_search'\<close>.
\<close>

theorem persisted_record_holds_fallback_items:
  "map_option (\<lambda>w. map (\<lambda>r. (res_day r, res_source r, map metadata_type (res_data r))) (store w))
     (fetchResourcesForPlan env_one_real ''p1'' io_plan world0)
   = Some [(1, ''wikipedia'', [None, Some (JStr ''fallback_search''), Some (JStr ''fallback_search''),
                                Some (JStr ''fallback_search''), Some (JStr ''fallback_search'')]),
           (1, ''youtube'', replicate 5 (Some (JStr ''fallback_search''))),
           (1, ''reddit'', replicate 5 (Some (JStr ''fallback_search''))),
           (1, ''medium'', replicate 5 (Some (JStr ''fallback_search'')))]"
  by code_simp

text \<open>
  Claim C2 fails on the code. For day 1 of the example plan and the source wikipedia,
  with every one of the eight lookups of the unit timing out, the aggregator persists a
  record: five fallback items.
\<close>

theorem all_lookups_fail_record_persisted:
  "map_option (\<lambda>w. (map fst (calls w),
                      map snd (calls w) = optimizeQueriesForSource ''wikipedia''
                         (generateComprehensiveSearchQueries rust_plan rust_day1) ''rust ownership'',
                      map (\<lambda>r. (res_day r, res_source r, map metadata_type (res_data r))) (store w)))
     (aggregate_source env_down ''p1'' 1 (generateComprehensiveSearchQueries rust_plan rust_day1)
        ''rust ownership'' ''wikipedia'' world0)
   = Some (replicate 8 ''wikipedia'', True,
           [(1, ''wikipedia'', replicate 5 (Some (JStr ''fallback_search'')))])"
  by code_simp

end
